theory Spec2Isabelle
  imports Main
begin

section \<open>Slug generation\<close>

text \<open>
  Every controller derives the slug with the same expression
  \<^verbatim>\<open>title.toLowerCase().replace(/[^a-zA-Z0-9\s]/g, "").replace(/\s+/g, "-")\<close>.
  A JavaScript string is modelled as a \<^typ>\<open>string\<close> whose characters are the code units
  below 256 (the Latin-1 range).  In that range \<^verbatim>\<open>toLowerCase\<close> works unit by unit:
  it adds 32 to \<^verbatim>\<open>A-Z\<close> and to the accented capitals 192..222 (except the
  multiplication sign 215).  The class \<^verbatim>\<open>\s\<close> holds the units 9..13, 32 and 160 there.
\<close>

definition code_unit :: "char \<Rightarrow> nat" where
  "code_unit c = of_char c"

definition is_upper :: "char \<Rightarrow> bool" where
  "is_upper c = (65 \<le> code_unit c \<and> code_unit c \<le> 90)"

definition is_lower :: "char \<Rightarrow> bool" where
  "is_lower c = (97 \<le> code_unit c \<and> code_unit c \<le> 122)"

definition is_digit :: "char \<Rightarrow> bool" where
  "is_digit c = (48 \<le> code_unit c \<and> code_unit c \<le> 57)"

definition is_space :: "char \<Rightarrow> bool" where
  "is_space c = (code_unit c \<in> {9, 10, 11, 12, 13, 32, 160})"

definition toLowerCase_char :: "char \<Rightarrow> char" where
  "toLowerCase_char c =
     (if is_upper c \<or> (192 \<le> code_unit c \<and> code_unit c \<le> 222 \<and> code_unit c \<noteq> 215)
      then char_of (code_unit c + 32) else c)"

definition toLowerCase :: "string \<Rightarrow> string" where
  "toLowerCase s = map toLowerCase_char s"

definition kept :: "char \<Rightarrow> bool" where
  "kept c = (is_lower c \<or> is_upper c \<or> is_digit c \<or> is_space c)"

function hyphenate :: "string \<Rightarrow> string" where
  "hyphenate [] = []"
| "hyphenate (c # cs) =
     (if is_space c then CHR ''-'' # hyphenate (dropWhile is_space cs)
      else c # hyphenate cs)"
  by pat_completeness auto
termination
  by (relation "measure length") (auto simp: less_Suc_eq_le length_dropWhile_le)

definition slugify :: "string \<Rightarrow> string" where
  "slugify title = hyphenate (filter kept (toLowerCase title))"





section \<open>JavaScript values\<close>

text \<open>
  A request field or a document path is a string or \<^verbatim>\<open>undefined\<close>:
  \<^typ>\<open>string option\<close>.  \<open>truthy\<close> is JavaScript's truthiness of such a value
  (the empty string and \<^verbatim>\<open>undefined\<close> are falsy), \<open>or_else a b\<close> is \<^verbatim>\<open>a || b\<close>,
  \<open>startsWith_http\<close> is \<^verbatim>\<open>s.startsWith('http')\<close>.
\<close>

definition truthy :: "string option \<Rightarrow> bool" where
  "truthy v = (case v of None \<Rightarrow> False | Some s \<Rightarrow> s \<noteq> [])"

definition or_else :: "string option \<Rightarrow> string option \<Rightarrow> string option" where
  "or_else a b = (if truthy a then a else b)"

definition truthy_num :: "int option \<Rightarrow> bool" where
  "truthy_num v = (case v of None \<Rightarrow> False | Some n \<Rightarrow> n \<noteq> 0)"

definition or_else_num :: "int option \<Rightarrow> int option \<Rightarrow> int option" where
  "or_else_num a b = (if truthy_num a then a else b)"

definition startsWith_http :: "string \<Rightarrow> bool" where
  "startsWith_http s = (take 4 s = ''http'')"

definition is_admin :: "string option \<Rightarrow> bool" where
  "is_admin role = (role = Some ''Admin'' \<or> role = Some ''Super_Admin'')"

section \<open>Collections, responses, external store\<close>

text \<open>
  A collection is the list of its documents with their \<^verbatim>\<open>_id\<close>, in insertion order.
  Identifiers are natural numbers; a new document gets an identifier no document of the
  collection has.
\<close>

type_synonym oid = nat
type_synonym 'a collection = "(oid \<times> 'a) list"

definition findById :: "'a collection \<Rightarrow> oid \<Rightarrow> 'a option" where
  "findById coll i = map_of coll i"

definition findOne :: "(oid \<times> 'a \<Rightarrow> bool) \<Rightarrow> 'a collection \<Rightarrow> (oid \<times> 'a) option" where
  "findOne p coll = List.find p coll"

definition fresh_id :: "'a collection \<Rightarrow> oid" where
  "fresh_id coll = fold (\<lambda>(i, d) m. max (Suc i) m) coll 0"

definition insert_doc :: "'a collection \<Rightarrow> 'a \<Rightarrow> 'a collection" where
  "insert_doc coll d = coll @ [(fresh_id coll, d)]"

definition replace_doc :: "'a collection \<Rightarrow> oid \<Rightarrow> 'a \<Rightarrow> 'a collection" where
  "replace_doc coll i d = map (\<lambda>(j, x). if j = i then (j, d) else (j, x)) coll"

definition delete_doc :: "'a collection \<Rightarrow> oid \<Rightarrow> 'a collection" where
  "delete_doc coll i = filter (\<lambda>(j, x). j \<noteq> i) coll"

text \<open>
  A handler answers with an HTTP status and either the data of a success or the message
  of a failure.  In the taxonomy of the specification, \<^verbatim>\<open>Conflict\<close> is the 400 answer
  "... with this title already exists", \<^verbatim>\<open>IllegalTransition\<close> the 400 answer
  "Cannot toggle status ...", \<^verbatim>\<open>UploadFailed\<close> the 500 answer "Error uploading content"
  and \<^verbatim>\<open>NotFound\<close> the 404 answers.
\<close>

datatype 'a response = Success nat 'a | Failure nat string

text \<open>
  The blob store is reached through the library call \<^verbatim>\<open>cloudinary.uploader.upload\<close> and
  the helpers \<^verbatim>\<open>getPublicIdFromUrl\<close> and \<^verbatim>\<open>deleteFile\<close> of the module
  \<^verbatim>\<open>utils/cloudinary.utils\<close>.  The controllers only call them, so the three are
  parameters of the model.
  \<open>upload public_id content\<close> is the \<^verbatim>\<open>secure_url\<close> of the stored blob, or \<open>None\<close>
  when the call throws; \<open>deleteFile public_id\<close> is \<open>False\<close> when the call throws;
  \<open>getPublicIdFromUrl\<close> gives the empty string where the helper gives a falsy value.
\<close>

record cloud =
  upload :: "string \<Rightarrow> string \<Rightarrow> string option"
  getPublicIdFromUrl :: "string \<Rightarrow> string"
  deleteFile :: "string \<Rightarrow> bool"

text \<open>
  The effects of a handler, in the order it performs them: an upload call (by public id),
  a delete call on the blob store (by public id), a write of a document that the database
  accepted (by document id).
\<close>

datatype event = Upload string | DeleteFile string | Save oid

section \<open>Samples\<close>

text \<open>
  The handlers of \<^verbatim>\<open>controllers/sample.controller.ts\<close>, lines 1-594, over the schema of
  \<^verbatim>\<open>models/sample.model.ts\<close>.
\<close>

datatype ESampleStatus = DRAFT | PUBLISHED | ARCHIVED

fun sample_status_string :: "ESampleStatus \<Rightarrow> string" where
  "sample_status_string DRAFT = ''Draft''"
| "sample_status_string PUBLISHED = ''Published''"
| "sample_status_string ARCHIVED = ''Archived''"

definition sample_status_of :: "string \<Rightarrow> ESampleStatus option" where
  "sample_status_of s =
     (if s = ''Draft'' then Some DRAFT else if s = ''Published'' then Some PUBLISHED
      else if s = ''Archived'' then Some ARCHIVED else None)"

record faq =
  question :: string
  answer :: string
  faq_order :: int

text \<open>
  A sample document as \<^verbatim>\<open>SampleSchema\<close> declares it.  \<open>createdAt\<close> is the creation
  instant the schema option \<^verbatim>\<open>timestamps\<close> adds; \<^verbatim>\<open>updatedAt\<close> is not modelled.
  The schema has no path \<^verbatim>\<open>content\<close>, \<^verbatim>\<open>rating\<close> or \<^verbatim>\<open>views\<close>, so these read as
  \<^verbatim>\<open>undefined\<close> on every document.
\<close>

record sample =
  title :: "string option"
  subtitle :: "string option"
  description :: "string option"
  slug :: "string option"
  contentUrl :: "string option"
  subject :: "string option"
  topic :: "string option"
  academicLevel :: "string option"
  wordCount :: "int option"
  referenceCount :: "int option"
  faqs :: "faq list"
  status :: ESampleStatus
  createdAt :: nat

text \<open>
  \<open>sample.save()\<close> runs the schema's validators: the required paths, those of the
  embedded FAQs included, must be non-empty strings.
\<close>

definition sample_valid :: "sample \<Rightarrow> bool" where
  "sample_valid d =
     (truthy (title d) \<and> truthy (description d) \<and> truthy (slug d)
      \<and> truthy (contentUrl d) \<and> truthy (subject d)
      \<and> list_all (\<lambda>f. question f \<noteq> [] \<and> answer f \<noteq> []) (faqs d))"

text \<open>
  The request as a sample handler reads it: \<open>errors\<close> is \<^verbatim>\<open>validationResult(req)\<close>,
  the \<open>b_\<close> fields are \<^verbatim>\<open>req.body\<close>, \<open>user_role\<close> is \<^verbatim>\<open>req.user?.role\<close>.
  Numbers are JSON numbers.
\<close>

record sample_req =
  errors :: "string list"
  b_title :: "string option"
  b_subtitle :: "string option"
  b_description :: "string option"
  b_content :: "string option"
  b_subject :: "string option"
  b_topic :: "string option"
  b_academicLevel :: "string option"
  b_wordCount :: "int option"
  b_referenceCount :: "int option"
  b_faqs :: "faq list option"
  b_status :: "string option"
  user_role :: "string option"

definition sample_public_id :: "string option \<Rightarrow> string" where
  "sample_public_id sl =
     ''content/samples/'' @ (case sl of None \<Rightarrow> ''undefined'' | Some s \<Rightarrow> s) @ ''-content.md''"

text \<open>
  The tail of \<open>createSample\<close>, lines 70-91: build the document with status
  \<^verbatim>\<open>ESampleStatus.DRAFT\<close> and save it.  \<open>tr\<close> holds the effects performed so far.
\<close>

definition createSample_save ::
  "nat \<Rightarrow> sample collection \<Rightarrow> sample_req \<Rightarrow> string \<Rightarrow> string \<Rightarrow> string option
     \<Rightarrow> event list \<Rightarrow> sample response \<times> sample collection \<times> event list" where
  "createSample_save now db req t sl url tr =
     (let doc = \<lparr> title = Some t, subtitle = b_subtitle req,
                   description = b_description req, slug = Some sl,
                   contentUrl = url, subject = b_subject req,
                   topic = b_topic req, academicLevel = b_academicLevel req,
                   wordCount = b_wordCount req,
                   referenceCount = b_referenceCount req,
                   faqs = (case b_faqs req of None \<Rightarrow> [] | Some fs \<Rightarrow> fs),
                   status = DRAFT, createdAt = now \<rparr>
      in if sample_valid doc
         then (Success 201 doc, insert_doc db doc, tr @ [Save (fresh_id db)])
         else (Failure 500 ''Error creating sample'', db, tr))"

text \<open>
  \<open>createSample\<close>, lines 8-99.  \<open>now\<close> is the instant of the call.  The result is the
  answer, the collection afterwards and the effects performed.  A missing title makes
  \<^verbatim>\<open>title.toLowerCase()\<close> throw, which the outer \<^verbatim>\<open>catch\<close> answers with 500.
  The 400 answer to a request that failed validation carries the validators' errors; it is
  written here with a fixed message.  The handler never reads \<^verbatim>\<open>req.body.status\<close>.
\<close>

definition createSample ::
  "cloud \<Rightarrow> nat \<Rightarrow> sample collection \<Rightarrow> sample_req
     \<Rightarrow> sample response \<times> sample collection \<times> event list" where
  "createSample cl now db req =
     (if errors req \<noteq> [] then (Failure 400 ''validation errors'', db, [])
      else case b_title req of
        None \<Rightarrow> (Failure 500 ''Error creating sample'', db, [])
      | Some t \<Rightarrow>
          let sl = slugify t in
          if findOne (\<lambda>(i, d). slug d = Some sl) db \<noteq> None
          then (Failure 400 ''A sample with this title already exists'', db, [])
          else
            (case b_content req of
               None \<Rightarrow> createSample_save now db req t sl None []
             | Some c \<Rightarrow>
                 if c = [] then createSample_save now db req t sl None []
                 else if startsWith_http c then createSample_save now db req t sl (Some c) []
                 else
                   let pid = sample_public_id (Some sl) in
                   (case upload cl pid c of
                      None \<Rightarrow> (Failure 500 ''Error uploading content'', db, [Upload pid])
                    | Some url \<Rightarrow> createSample_save now db req t sl (Some url) [Upload pid])))"

text \<open>
  The slug block of \<open>updateSample\<close>, lines 234-254: \<open>Inl\<close> is the message of the 400
  answer, \<open>Inr\<close> the document in memory afterwards.
\<close>

definition updateSample_slug ::
  "sample collection \<Rightarrow> oid \<Rightarrow> sample \<Rightarrow> string option \<Rightarrow> string + sample" where
  "updateSample_slug db i s t =
     (if truthy t \<and> t \<noteq> title s then
        (case t of
           None \<Rightarrow> Inr s
         | Some tt \<Rightarrow>
             let newSlug = slugify tt in
             if findOne (\<lambda>(j, d). slug d = Some newSlug \<and> j \<noteq> i) db \<noteq> None
             then Inl ''A sample with this title already exists''
             else Inr (s\<lparr>slug := Some newSlug\<rparr>))
      else Inr s)"

text \<open>
  The content block that \<open>updateSample\<close> (lines 256-283), \<open>updateBlog\<close> and
  \<open>updateService\<close> share word for word.  \<open>pid\<close> is the public id built from the slug,
  \<open>current\<close> the value the handler compares the content with (\<^verbatim>\<open>sample.content\<close>, which
  is \<^verbatim>\<open>undefined\<close>; \<^verbatim>\<open>service.contentUrl\<close>), \<open>old\<close> the stored \<^verbatim>\<open>contentUrl\<close>.
  \<open>Inl\<close> is the message of the 500 answer of the inner \<^verbatim>\<open>catch\<close>, which an upload or a
  delete that throws reaches; \<open>Inr\<close> is the local \<^verbatim>\<open>contentUrl\<close> afterwards.
\<close>

definition replace_content ::
  "cloud \<Rightarrow> string \<Rightarrow> string option \<Rightarrow> string option \<Rightarrow> string option
     \<Rightarrow> (string + string option) \<times> event list" where
  "replace_content cl pid current old content =
     (case content of
        None \<Rightarrow> (Inr None, [])
      | Some c \<Rightarrow>
          if content \<noteq> current \<and> \<not> startsWith_http c then
            (case upload cl pid c of
               None \<Rightarrow> (Inl ''Error uploading content'', [Upload pid])
             | Some url \<Rightarrow>
                 (case old of
                    None \<Rightarrow> (Inr (Some url), [Upload pid])
                  | Some prev \<Rightarrow>
                      if prev \<noteq> [] \<and> startsWith_http prev then
                        let oldPublicId = getPublicIdFromUrl cl prev in
                        if deleteFile cl oldPublicId
                        then (Inr (Some url), [Upload pid, DeleteFile oldPublicId])
                        else (Inl ''Error uploading content'',
                              [Upload pid, DeleteFile oldPublicId])
                      else (Inr (Some url), [Upload pid])))
          else (Inr content, []))"

text \<open>The assignments of \<open>updateSample\<close>, lines 285-299.\<close>

definition updateSample_fields :: "sample \<Rightarrow> string option \<Rightarrow> sample_req \<Rightarrow> sample" where
  "updateSample_fields s url req =
     s\<lparr> contentUrl := (if url \<noteq> None then url else contentUrl s),
        title := or_else (b_title req) (title s),
        subtitle := or_else (b_subtitle req) (subtitle s),
        description := or_else (b_description req) (description s),
        subject := or_else (b_subject req) (subject s),
        topic := or_else (b_topic req) (topic s),
        academicLevel := or_else (b_academicLevel req) (academicLevel s),
        wordCount := or_else_num (b_wordCount req) (wordCount s),
        referenceCount := or_else_num (b_referenceCount req) (referenceCount s),
        faqs := (case b_faqs req of None \<Rightarrow> faqs s | Some fs \<Rightarrow> fs) \<rparr>"

text \<open>
  The status block of \<open>updateSample\<close>, lines 301-305.  \<open>None\<close>: the string assigned is
  no member of \<^verbatim>\<open>ESampleStatus\<close>, so the validators of \<^verbatim>\<open>save()\<close> reject the document.
\<close>

definition updateSample_status :: "sample \<Rightarrow> sample_req \<Rightarrow> sample option" where
  "updateSample_status s req =
     (if truthy (b_status req) \<and> is_admin (user_role req) then
        (case b_status req of
           None \<Rightarrow> Some s
         | Some st \<Rightarrow>
             (case sample_status_of st of
                None \<Rightarrow> None
              | Some v \<Rightarrow> Some (s\<lparr>status := v\<rparr>)))
      else Some s)"

text \<open>\<open>updateSample\<close>, lines 209-321.  The handler does not look at \<^verbatim>\<open>validationResult\<close>.\<close>

definition updateSample ::
  "cloud \<Rightarrow> sample collection \<Rightarrow> oid \<Rightarrow> sample_req
     \<Rightarrow> sample response \<times> sample collection \<times> event list" where
  "updateSample cl db i req =
     (case findById db i of
        None \<Rightarrow> (Failure 404 ''Sample not found'', db, [])
      | Some s0 \<Rightarrow>
          (case updateSample_slug db i s0 (b_title req) of
             Inl m \<Rightarrow> (Failure 400 m, db, [])
           | Inr s1 \<Rightarrow>
               (case replace_content cl (sample_public_id (slug s1)) None (contentUrl s1)
                       (b_content req) of
                  (Inl m, tr) \<Rightarrow> (Failure 500 m, db, tr)
                | (Inr url, tr) \<Rightarrow>
                    (case updateSample_status (updateSample_fields s1 url req) req of
                       None \<Rightarrow> (Failure 500 ''Error updating sample'', db, tr)
                     | Some s2 \<Rightarrow>
                         if sample_valid s2
                         then (Success 200 s2, replace_doc db i s2, tr @ [Save i])
                         else (Failure 500 ''Error updating sample'', db, tr)))))"

text \<open>
  \<open>toggleSampleStatus\<close>, lines 413-472.  \<^verbatim>\<open>findByIdAndUpdate\<close> writes the status alone,
  without validators, and the handler answers with the identifier and the new status.
\<close>

definition toggleSampleStatus ::
  "sample collection \<Rightarrow> oid
     \<Rightarrow> (oid \<times> ESampleStatus) response \<times> sample collection \<times> event list" where
  "toggleSampleStatus db i =
     (case findById db i of
        None \<Rightarrow> (Failure 404 ''Sample not found'', db, [])
      | Some s \<Rightarrow>
          if status s = ARCHIVED
          then (Failure 400 ''Cannot toggle status of archived sample'', db, [])
          else
            let newStatus = (if status s = PUBLISHED then DRAFT else PUBLISHED);
                db' = replace_doc db i (s\<lparr>status := newStatus\<rparr>)
            in (case findById db' i of
                  None \<Rightarrow> (Failure 404 ''Sample not found'', db', [])
                | Some u \<Rightarrow> (Success 200 (i, status u), db', [Save i])))"

section \<open>Listing samples\<close>

text \<open>
  The query string as \<open>getSamples\<close> reads it.  \<open>q_page\<close> and \<open>q_limit\<close> are the results
  of \<^verbatim>\<open>parseInt\<close>, with \<open>None\<close> for \<^verbatim>\<open>NaN\<close>; \<open>q_role\<close> is \<^verbatim>\<open>req.user?.role\<close>.
\<close>

record samples_query =
  q_subject :: "string option"
  q_topic :: "string option"
  q_academicLevel :: "string option"
  q_status :: "string option"
  q_sort :: "string option"
  q_page :: "int option"
  q_limit :: "int option"
  q_role :: "string option"

text \<open>\<^verbatim>\<open>parseInt(x) || d\<close>: \<^verbatim>\<open>NaN\<close> and 0 are falsy.\<close>

definition int_or :: "int option \<Rightarrow> int \<Rightarrow> int" where
  "int_or v d = (case v of None \<Rightarrow> d | Some n \<Rightarrow> if n = 0 then d else n)"

text \<open>\<^verbatim>\<open>Math.ceil(total / limit)\<close> for a limit other than 0.\<close>

definition ceil_div :: "int \<Rightarrow> int \<Rightarrow> int" where
  "ceil_div a b = - ((- a) div b)"

text \<open>
  The filter object the handler builds (lines 114-126), as the predicate a document has to
  satisfy.  A filter on a path is an equality of strings.
\<close>

definition samples_filter :: "samples_query \<Rightarrow> sample \<Rightarrow> bool" where
  "samples_filter q d =
     ((truthy (q_subject q) \<longrightarrow> subject d = q_subject q)
      \<and> (truthy (q_topic q) \<longrightarrow> topic d = q_topic q)
      \<and> (truthy (q_academicLevel q) \<longrightarrow> academicLevel d = q_academicLevel q)
      \<and> (if is_admin (q_role q)
          then (let st = (case q_status q of None \<Rightarrow> Some ''Published'' | Some x \<Rightarrow> Some x)
                in truthy st \<longrightarrow> Some (sample_status_string (status d)) = st)
          else status d = PUBLISHED))"

text \<open>
  The sort (lines 128-142).  Only \<^verbatim>\<open>createdAt\<close> is a path of the schema; a sort on
  \<^verbatim>\<open>rating.score\<close> or \<^verbatim>\<open>views\<close> finds the same missing value in every document and
  leaves the order as it is.  Sorting is stable.
\<close>

definition samples_sort :: "string option \<Rightarrow> (oid \<times> sample) list \<Rightarrow> (oid \<times> sample) list" where
  "samples_sort srt ds =
     (if srt = Some ''recent'' then sort_key (\<lambda>(i, d). - int (createdAt d)) ds else ds)"

text \<open>
  \<^verbatim>\<open>.skip(n).limit(m)\<close> on the sorted matches: the server rejects a negative skip, which
  the handler's \<^verbatim>\<open>catch\<close> answers with 500; a negative limit asks for its absolute value.
\<close>

definition skip_limit :: "int \<Rightarrow> int \<Rightarrow> 'a list \<Rightarrow> 'a list option" where
  "skip_limit n m ds = (if n < 0 then None else Some (take (nat \<bar>m\<bar>) (drop (nat n) ds)))"

record 'a listing =
  items :: "'a list"
  pagination :: "(int \<times> int \<times> int) option"
  totalItems :: nat

text \<open>\<open>getSamples\<close>, lines 102-169.\<close>

definition getSamples ::
  "sample collection \<Rightarrow> samples_query \<Rightarrow> (oid \<times> sample) listing response" where
  "getSamples db q =
     (let page = int_or (q_page q) 1;
          limit = int_or (q_limit q) 10;
          matches = filter (\<lambda>(i, d). samples_filter q d) db;
          total = length matches
      in case skip_limit ((page - 1) * limit) limit
                (samples_sort (case q_sort q of None \<Rightarrow> Some ''rating'' | Some x \<Rightarrow> Some x)
                   matches) of
           None \<Rightarrow> Failure 500 ''Error fetching samples''
         | Some samples \<Rightarrow>
             Success 200 \<lparr> items = samples,
                           pagination = Some (page, ceil_div (int total) limit, int total),
                           totalItems = total \<rparr>)"

section \<open>Services and their sections\<close>

text \<open>
  The handlers of the service controller, over \<^verbatim>\<open>ServiceSectionSchema\<close> and
  \<^verbatim>\<open>ServiceSchema\<close>; line numbers are those of the controller's file.
\<close>

datatype EServiceStatus = S_DRAFT | S_LIVE | S_INACTIVE | S_COMING_SOON

fun service_status_string :: "EServiceStatus \<Rightarrow> string" where
  "service_status_string S_DRAFT = ''Draft''"
| "service_status_string S_LIVE = ''Live''"
| "service_status_string S_INACTIVE = ''Inactive''"
| "service_status_string S_COMING_SOON = ''Coming_Soon''"

definition service_status_of :: "string \<Rightarrow> EServiceStatus option" where
  "service_status_of s =
     (if s = ''Draft'' then Some S_DRAFT else if s = ''Live'' then Some S_LIVE
      else if s = ''Inactive'' then Some S_INACTIVE
      else if s = ''Coming_Soon'' then Some S_COMING_SOON else None)"

datatype EServiceSectionStatus = SEC_DRAFT | SEC_LIVE | SEC_INACTIVE

record service_section =
  sec_name :: "string option"
  sec_description :: "string option"
  sec_slug :: "string option"
  sec_order :: int
  sec_status :: EServiceSectionStatus

text \<open>
  A service document as \<^verbatim>\<open>ServiceSchema\<close> declares it (fields prefixed \<open>svc_\<close>).  The
  nested objects \<^verbatim>\<open>experts\<close>, \<^verbatim>\<open>process\<close>, \<^verbatim>\<open>promises\<close> and \<^verbatim>\<open>cta\<close>, which the handlers
  only copy, are carried as their JSON text.
\<close>

type_synonym json = string

record service =
  svc_section :: oid
  svc_title :: "string option"
  svc_subtitle :: "string option"
  svc_description :: "string option"
  svc_slug :: "string option"
  svc_contentUrl :: "string option"
  svc_order :: int
  svc_status :: EServiceStatus
  svc_features :: "string list"
  svc_experts :: "json option"
  svc_process :: "json option"
  svc_promises :: "json option"
  svc_cta :: "json option"
  svc_faqs :: "faq list"

definition service_valid :: "service \<Rightarrow> bool" where
  "service_valid d =
     (truthy (svc_title d) \<and> truthy (svc_description d) \<and> truthy (svc_slug d)
      \<and> truthy (svc_contentUrl d))"

record service_req =
  sb_section :: "oid option"
  sb_title :: "string option"
  sb_subtitle :: "string option"
  sb_description :: "string option"
  sb_content :: "string option"
  sb_features :: "string list option"
  sb_experts :: "json option"
  sb_process :: "json option"
  sb_promises :: "json option"
  sb_cta :: "json option"
  sb_order :: "int option"
  sb_status :: "string option"

definition service_public_id :: "string option \<Rightarrow> string" where
  "service_public_id sl =
     ''content/services/'' @ (case sl of None \<Rightarrow> ''undefined'' | Some s \<Rightarrow> s) @ ''-content.md''"

text \<open>The slug block of \<open>updateService\<close>, lines 426-446.\<close>

definition updateService_slug ::
  "service collection \<Rightarrow> oid \<Rightarrow> service \<Rightarrow> string option \<Rightarrow> string + service" where
  "updateService_slug db i s t =
     (if truthy t \<and> t \<noteq> svc_title s then
        (case t of
           None \<Rightarrow> Inr s
         | Some tt \<Rightarrow>
             let newSlug = slugify tt in
             if findOne (\<lambda>(j, d). svc_slug d = Some newSlug \<and> j \<noteq> i) db \<noteq> None
             then Inl ''A service with this title already exists''
             else Inr (s\<lparr>svc_slug := Some newSlug\<rparr>))
      else Inr s)"

text \<open>The assignments of \<open>updateService\<close>, lines 477-492.\<close>

definition updateService_fields :: "service \<Rightarrow> string option \<Rightarrow> service_req \<Rightarrow> service" where
  "updateService_fields s url req =
     s\<lparr> svc_contentUrl := (if url \<noteq> None then url else svc_contentUrl s),
        svc_section := (case sb_section req of None \<Rightarrow> svc_section s | Some x \<Rightarrow> x),
        svc_title := or_else (sb_title req) (svc_title s),
        svc_subtitle := or_else (sb_subtitle req) (svc_subtitle s),
        svc_description := or_else (sb_description req) (svc_description s),
        svc_features := (case sb_features req of None \<Rightarrow> svc_features s | Some fs \<Rightarrow> fs),
        svc_experts := (if sb_experts req \<noteq> None then sb_experts req else svc_experts s),
        svc_process := (if sb_process req \<noteq> None then sb_process req else svc_process s),
        svc_promises := (if sb_promises req \<noteq> None then sb_promises req else svc_promises s),
        svc_cta := (if sb_cta req \<noteq> None then sb_cta req else svc_cta s),
        svc_order := (case sb_order req of None \<Rightarrow> svc_order s | Some n \<Rightarrow> n) \<rparr>"

text \<open>
  The status assignment of \<open>updateService\<close>, line 493: \<^verbatim>\<open>status || service.status\<close>,
  whoever the caller is.  \<open>None\<close>: the string is no member of \<^verbatim>\<open>EServiceStatus\<close> and
  \<^verbatim>\<open>save()\<close> rejects the document.
\<close>

definition updateService_status :: "service \<Rightarrow> service_req \<Rightarrow> service option" where
  "updateService_status s req =
     (if truthy (sb_status req) then
        (case sb_status req of
           None \<Rightarrow> Some s
         | Some st \<Rightarrow>
             (case service_status_of st of
                None \<Rightarrow> None
              | Some v \<Rightarrow> Some (s\<lparr>svc_status := v\<rparr>)))
      else Some s)"

text \<open>\<open>updateService\<close>, lines 389-509.\<close>

definition updateService ::
  "cloud \<Rightarrow> service_section collection \<Rightarrow> service collection \<Rightarrow> oid \<Rightarrow> service_req
     \<Rightarrow> service response \<times> service collection \<times> event list" where
  "updateService cl secs db i req =
     (case findById db i of
        None \<Rightarrow> (Failure 404 ''Service not found'', db, [])
      | Some s0 \<Rightarrow>
          if (case sb_section req of
                None \<Rightarrow> False
              | Some x \<Rightarrow> x \<noteq> svc_section s0 \<and> findById secs x = None)
          then (Failure 404 ''Section not found'', db, [])
          else
            (case updateService_slug db i s0 (sb_title req) of
               Inl m \<Rightarrow> (Failure 400 m, db, [])
             | Inr s1 \<Rightarrow>
                 (case replace_content cl (service_public_id (svc_slug s1)) (svc_contentUrl s1)
                         (svc_contentUrl s1) (sb_content req) of
                    (Inl m, tr) \<Rightarrow> (Failure 500 m, db, tr)
                  | (Inr url, tr) \<Rightarrow>
                      (case updateService_status (updateService_fields s1 url req) req of
                         None \<Rightarrow> (Failure 500 ''Error updating service'', db, tr)
                       | Some s2 \<Rightarrow>
                           if service_valid s2
                           then (Success 200 s2, replace_doc db i s2, tr @ [Save i])
                           else (Failure 500 ''Error updating service'', db, tr)))))"

text \<open>\<open>toggleServiceStatus\<close>, lines 624-683.\<close>

definition toggleServiceStatus ::
  "service collection \<Rightarrow> oid
     \<Rightarrow> (oid \<times> EServiceStatus) response \<times> service collection \<times> event list" where
  "toggleServiceStatus db i =
     (case findById db i of
        None \<Rightarrow> (Failure 404 ''Service not found'', db, [])
      | Some s \<Rightarrow>
          if svc_status s = S_INACTIVE \<or> svc_status s = S_COMING_SOON
          then (Failure 400 ''Cannot toggle status of inactive or coming soon service'', db, [])
          else
            let newStatus = (if svc_status s = S_LIVE then S_DRAFT else S_LIVE);
                db' = replace_doc db i (s\<lparr>svc_status := newStatus\<rparr>)
            in (case findById db' i of
                  None \<Rightarrow> (Failure 404 ''Service not found'', db', [])
                | Some u \<Rightarrow> (Success 200 (i, svc_status u), db', [Save i])))"

text \<open>
  \<open>deleteSection\<close>, lines 139-171, on the two collections it reads and writes: the
  answer and the sections afterwards.
\<close>

definition deleteSection ::
  "service_section collection \<Rightarrow> service collection \<Rightarrow> oid
     \<Rightarrow> unit response \<times> service_section collection" where
  "deleteSection secs svcs i =
     (let servicesCount = length (filter (\<lambda>(j, s). svc_section s = i) svcs)
      in if servicesCount > 0
         then (Failure 400 ''Cannot delete section with existing services'', secs)
         else (case findById secs i of
                 None \<Rightarrow> (Failure 404 ''Section not found'', secs)
               | Some sec \<Rightarrow> (Success 200 (), delete_doc secs i)))"

text \<open>
  The query string as \<open>getServices\<close> reads it.  \<open>sq_limit\<close> is \<^verbatim>\<open>parseInt(limitParam)\<close>
  when the parameter is a non-empty string that parses, \<open>None\<close> otherwise.  The options
  \<^verbatim>\<open>$regex\<close>/\<^verbatim>\<open>i\<close> of the database are the parameter \<open>rx\<close>: \<open>rx pattern text\<close> holds when the
  pattern matches the text, case-insensitively; a missing text matches nothing.
\<close>

record services_query =
  sq_sectionId :: "oid option"
  sq_status :: "string option"
  sq_search :: "string option"
  sq_page :: "int option"
  sq_limit :: "int option"
  sq_role :: "string option"

definition rx_field :: "(string \<Rightarrow> string \<Rightarrow> bool) \<Rightarrow> string \<Rightarrow> string option \<Rightarrow> bool" where
  "rx_field rx pat v = (case v of None \<Rightarrow> False | Some txt \<Rightarrow> rx pat txt)"

definition services_filter ::
  "(string \<Rightarrow> string \<Rightarrow> bool) \<Rightarrow> services_query \<Rightarrow> service \<Rightarrow> bool" where
  "services_filter rx q d =
     ((if is_admin (sq_role q)
       then (truthy (sq_status q) \<longrightarrow> Some (service_status_string (svc_status d)) = sq_status q)
       else svc_status d = S_LIVE)
      \<and> (case sq_sectionId q of None \<Rightarrow> True | Some x \<Rightarrow> svc_section d = x)
      \<and> (case sq_search q of
            None \<Rightarrow> True
          | Some pat \<Rightarrow>
              pat = [] \<or> rx_field rx pat (svc_title d) \<or> rx_field rx pat (svc_subtitle d)
              \<or> rx_field rx pat (svc_description d)))"

text \<open>
  \<open>getServices\<close>, lines 280-350.  The matches are sorted by \<^verbatim>\<open>order\<close>; pagination
  applies only when the limit is truthy.  \<^verbatim>\<open>populate\<close> adds the section's name and slug to
  each document and selects nothing.
\<close>

definition getServices ::
  "(string \<Rightarrow> string \<Rightarrow> bool) \<Rightarrow> service collection \<Rightarrow> services_query
     \<Rightarrow> (oid \<times> service) listing response" where
  "getServices rx db q =
     (let page = int_or (sq_page q) 1;
          matches = sort_key (\<lambda>(i, d). svc_order d) (filter (\<lambda>(i, d). services_filter rx q d) db);
          total = length matches
      in case sq_limit q of
           None \<Rightarrow> Success 200 \<lparr> items = matches, pagination = None, totalItems = total \<rparr>
         | Some limit \<Rightarrow>
             if limit = 0
             then Success 200 \<lparr> items = matches, pagination = None, totalItems = total \<rparr>
             else
               (case skip_limit ((page - 1) * limit) limit matches of
                  None \<Rightarrow> Failure 500 ''Error fetching services''
                | Some services \<Rightarrow>
                    Success 200 \<lparr> items = services,
                       pagination = Some (page, ceil_div (int total) limit, int total),
                       totalItems = total \<rparr>))"

section \<open>Testimonials\<close>

text \<open>
  The handlers of the testimonial controller, over \<^verbatim>\<open>models/testimonials.model.ts\<close>;
  line numbers are those of the controller's file.
\<close>

datatype TestimonialStatus = T_draft | T_published | T_archived

definition testimonial_status_of :: "string \<Rightarrow> TestimonialStatus option" where
  "testimonial_status_of s =
     (if s = ''draft'' then Some T_draft else if s = ''published'' then Some T_published
      else if s = ''archived'' then Some T_archived else None)"

text \<open>
  A testimonial document as \<^verbatim>\<open>TestimonialSchema\<close> declares it (fields prefixed \<open>t_\<close>);
  \<^verbatim>\<open>null\<close> and \<^verbatim>\<open>undefined\<close> are both \<open>None\<close>.
\<close>

record testimonial =
  t_name :: "string option"
  t_content :: "string option"
  t_stars :: int
  t_location :: "string option"
  t_imageUrl :: "string option"
  t_status :: TestimonialStatus
  t_forHomepage :: bool

definition testimonial_valid :: "testimonial \<Rightarrow> bool" where
  "testimonial_valid d =
     (truthy (t_name d) \<and> truthy (t_content d) \<and> 1 \<le> t_stars d \<and> t_stars d \<le> 5)"

text \<open>
  The request of a testimonial handler: the body, with \<^verbatim>\<open>stars\<close> an integer, and
  \<open>tb_image\<close>, the path of the uploaded file \<^verbatim>\<open>req.files.image[0]\<close> when there is one.
\<close>

record testimonial_req =
  tb_name :: "string option"
  tb_content :: "string option"
  tb_stars :: "int option"
  tb_location :: "string option"
  tb_forHomepage :: "bool option"
  tb_status :: "string option"
  tb_image :: "string option"

text \<open>
  \<open>createTestimonial\<close>, lines 6-48.  The status of the new document is
  \<^verbatim>\<open>status || "draft"\<close>; a string outside the schema's enumeration fails the validators
  of \<^verbatim>\<open>save()\<close>, which the \<^verbatim>\<open>catch\<close> answers with 500.
\<close>

definition createTestimonial ::
  "testimonial collection \<Rightarrow> testimonial_req
     \<Rightarrow> testimonial response \<times> testimonial collection \<times> event list" where
  "createTestimonial db req =
     (case tb_stars req of
        None \<Rightarrow> (Failure 400 ''Stars field is required and must be between 1 and 5'', db, [])
      | Some st \<Rightarrow>
          if st = 0 \<or> st < 1 \<or> st > 5
          then (Failure 400 ''Stars field is required and must be between 1 and 5'', db, [])
          else
            (case testimonial_status_of
                    (case or_else (tb_status req) (Some ''draft'') of
                       None \<Rightarrow> ''draft'' | Some x \<Rightarrow> x) of
               None \<Rightarrow> (Failure 500 ''Error creating testimonial'', db, [])
             | Some v \<Rightarrow>
                 let doc = \<lparr> t_name = tb_name req, t_content = tb_content req, t_stars = st,
                               t_location = tb_location req, t_imageUrl = tb_image req,
                               t_status = v,
                               t_forHomepage =
                                 (case tb_forHomepage req of None \<Rightarrow> False | Some b \<Rightarrow> b) \<rparr>
                 in if testimonial_valid doc
                    then (Success 201 doc, insert_doc db doc, [Save (fresh_id db)])
                    else (Failure 500 ''Error creating testimonial'', db, [])))"

text \<open>
  The image block of \<open>updateTestimonial\<close>, lines 180-192: \<open>None\<close> when \<^verbatim>\<open>deleteFile\<close>
  throws (the outer \<^verbatim>\<open>catch\<close> answers with 500), otherwise the document in memory.
\<close>

definition updateTestimonial_image ::
  "cloud \<Rightarrow> testimonial \<Rightarrow> string option \<Rightarrow> testimonial option \<times> event list" where
  "updateTestimonial_image cl t img =
     (case img of
        None \<Rightarrow> (Some t, [])
      | Some path \<Rightarrow>
          (case t_imageUrl t of
             None \<Rightarrow> (Some (t\<lparr>t_imageUrl := Some path\<rparr>), [])
           | Some u \<Rightarrow>
               if u = [] \<or> getPublicIdFromUrl cl u = []
               then (Some (t\<lparr>t_imageUrl := Some path\<rparr>), [])
               else if deleteFile cl (getPublicIdFromUrl cl u)
                    then (Some (t\<lparr>t_imageUrl := Some path\<rparr>),
                          [DeleteFile (getPublicIdFromUrl cl u)])
                    else (None, [DeleteFile (getPublicIdFromUrl cl u)])))"

text \<open>The assignments of \<open>updateTestimonial\<close>, lines 194-199.\<close>

definition updateTestimonial_fields ::
  "testimonial \<Rightarrow> testimonial_req \<Rightarrow> testimonial option" where
  "updateTestimonial_fields t req =
     (let t' = t\<lparr> t_name := or_else (tb_name req) (t_name t),
                  t_content := or_else (tb_content req) (t_content t),
                  t_stars := (case tb_stars req of None \<Rightarrow> t_stars t | Some n \<Rightarrow> n),
                  t_location :=
                    (if tb_location req \<noteq> None then tb_location req else t_location t),
                  t_forHomepage :=
                    (case tb_forHomepage req of None \<Rightarrow> t_forHomepage t | Some b \<Rightarrow> b) \<rparr>
      in if truthy (tb_status req) then
           (case tb_status req of
              None \<Rightarrow> Some t'
            | Some st \<Rightarrow>
                (case testimonial_status_of st of
                   None \<Rightarrow> None
                 | Some v \<Rightarrow> Some (t'\<lparr>t_status := v\<rparr>)))
         else Some t')"

text \<open>\<open>updateTestimonial\<close>, lines 159-215.\<close>

definition updateTestimonial ::
  "cloud \<Rightarrow> testimonial collection \<Rightarrow> oid \<Rightarrow> testimonial_req
     \<Rightarrow> testimonial response \<times> testimonial collection \<times> event list" where
  "updateTestimonial cl db i req =
     (case findById db i of
        None \<Rightarrow> (Failure 404 ''Testimonial not found'', db, [])
      | Some t0 \<Rightarrow>
          if (case tb_stars req of None \<Rightarrow> False | Some n \<Rightarrow> n < 1 \<or> n > 5)
          then (Failure 400 ''Stars must be between 1 and 5'', db, [])
          else
            (case updateTestimonial_image cl t0 (tb_image req) of
               (None, tr) \<Rightarrow> (Failure 500 ''Error updating testimonial'', db, tr)
             | (Some t1, tr) \<Rightarrow>
                 (case updateTestimonial_fields t1 req of
                    None \<Rightarrow> (Failure 500 ''Error updating testimonial'', db, tr)
                  | Some t2 \<Rightarrow>
                      if testimonial_valid t2
                      then (Success 200 t2, replace_doc db i t2, tr @ [Save i])
                      else (Failure 500 ''Error updating testimonial'', db, tr))))"

section \<open>Blogs\<close>

text \<open>
  The blog handlers, which follow the sample handlers at lines 595-1234 of
  \<^verbatim>\<open>controllers/sample.controller.ts\<close>, over \<^verbatim>\<open>models/blog.model.ts\<close>.
\<close>

datatype EBlogStatus = B_DRAFT | B_PUBLISHED | B_ARCHIVED

definition blog_status_of :: "string \<Rightarrow> EBlogStatus option" where
  "blog_status_of s =
     (if s = ''Draft'' then Some B_DRAFT else if s = ''Published'' then Some B_PUBLISHED
      else if s = ''Archived'' then Some B_ARCHIVED else None)"

text \<open>
  A blog document as \<^verbatim>\<open>BlogSchema\<close> declares it (fields prefixed \<open>blog_\<close>);
  \<open>blog_datePublished\<close> is the publication instant.  The nested objects are carried as
  their JSON text.
\<close>

record blog =
  blog_title :: "string option"
  blog_subtitle :: "string option"
  blog_description :: "string option"
  blog_slug :: "string option"
  blog_contentUrl :: "string option"
  blog_thumbnailUrl :: "string option"
  blog_creator :: oid
  blog_views :: int
  blog_category :: "string option"
  blog_datePublished :: "nat option"
  blog_authorName :: "string option"
  blog_tableOfContents :: "string list"
  blog_tags :: "string list"
  blog_readTime :: "int option"
  blog_status :: EBlogStatus
  blog_ctaSection :: "json option"
  blog_readMore :: "json option"
  blog_faqs :: "faq list"

text \<open>
  The status block of \<open>updateBlog\<close>, lines 966-973, under the comment
  "Set datePublished when published for the first time".  \<open>now\<close> is \<^verbatim>\<open>new Date()\<close>;
  \<open>None\<close>: the string is no member of \<^verbatim>\<open>EBlogStatus\<close> and \<^verbatim>\<open>save()\<close> rejects the document.
\<close>

definition updateBlog_status ::
  "nat \<Rightarrow> blog \<Rightarrow> string option \<Rightarrow> string option \<Rightarrow> blog option" where
  "updateBlog_status now b st role =
     (if truthy st \<and> is_admin role then
        (case st of
           None \<Rightarrow> Some b
         | Some x \<Rightarrow>
             (case blog_status_of x of
                None \<Rightarrow> None
              | Some v \<Rightarrow>
                  Some (if v = B_PUBLISHED \<and> blog_datePublished b = None
                        then b\<lparr>blog_status := v, blog_datePublished := Some now\<rparr>
                        else b\<lparr>blog_status := v\<rparr>)))
      else Some b)"

text \<open>
  \<open>toggleBlogStatus\<close>, lines 1027-1086.  The update document of \<^verbatim>\<open>findByIdAndUpdate\<close>
  is \<^verbatim>\<open>{ status: newStatus }\<close>.
\<close>

definition toggleBlogStatus ::
  "blog collection \<Rightarrow> oid
     \<Rightarrow> (oid \<times> EBlogStatus) response \<times> blog collection \<times> event list" where
  "toggleBlogStatus db i =
     (case findById db i of
        None \<Rightarrow> (Failure 404 ''Blog not found'', db, [])
      | Some b \<Rightarrow>
          if blog_status b = B_ARCHIVED
          then (Failure 400 ''Cannot toggle status of archived blog'', db, [])
          else
            let newStatus = (if blog_status b = B_PUBLISHED then B_DRAFT else B_PUBLISHED);
                db' = replace_doc db i (b\<lparr>blog_status := newStatus\<rparr>)
            in (case findById db' i of
                  None \<Rightarrow> (Failure 404 ''Blog not found'', db', [])
                | Some u \<Rightarrow> (Success 200 (i, blog_status u), db', [Save i])))"

section \<open>Example data\<close>

text \<open>
  A blob store whose uploads succeed, one whose uploads fail, and documents and requests
  on which the handlers are evaluated below.
\<close>

definition ok_cloud :: cloud where
  "ok_cloud = \<lparr> upload = (\<lambda>pid c. Some (''https://cdn.example/'' @ pid)),
                getPublicIdFromUrl = (\<lambda>u. drop 20 u),
                deleteFile = (\<lambda>p. True) \<rparr>"

definition failing_cloud :: cloud where
  "failing_cloud = \<lparr> upload = (\<lambda>pid c. None),
                     getPublicIdFromUrl = (\<lambda>u. drop 20 u),
                     deleteFile = (\<lambda>p. True) \<rparr>"

definition ex_sample :: sample where
  "ex_sample = \<lparr> title = Some ''Intro to Testing!'', subtitle = Some ''Basics'',
                 description = Some ''A first sample'', slug = Some ''intro-to-testing'',
                 contentUrl = Some ''https://cdn.example/old.md'', subject = Some ''Maths'',
                 topic = None, academicLevel = None, wordCount = None,
                 referenceCount = None, faqs = [], status = DRAFT, createdAt = 1 \<rparr>"

definition ex_create_req :: sample_req where
  "ex_create_req = \<lparr> errors = [], b_title = Some ''Intro to Testing!'',
                     b_subtitle = Some ''Basics'', b_description = Some ''A first sample'',
                     b_content = Some ''https://cdn.example/old.md'',
                     b_subject = Some ''Maths'', b_topic = None, b_academicLevel = None,
                     b_wordCount = None, b_referenceCount = None, b_faqs = None,
                     b_status = Some ''Published'', user_role = Some ''Admin'' \<rparr>"

definition ex_update_req :: sample_req where
  "ex_update_req = \<lparr> errors = [], b_title = Some [], b_subtitle = Some [],
                     b_description = None, b_content = Some ''New markdown text'',
                     b_subject = None, b_topic = None, b_academicLevel = None,
                     b_wordCount = None, b_referenceCount = None, b_faqs = None,
                     b_status = None, user_role = Some ''Admin'' \<rparr>"

definition ex_service :: service where
  "ex_service = \<lparr> svc_section = 7, svc_title = Some ''Essay help'', svc_subtitle = None,
                  svc_description = Some ''Help with essays'', svc_slug = Some ''essay-help'',
                  svc_contentUrl = Some ''https://cdn.example/essay.md'', svc_order = 0,
                  svc_status = S_DRAFT, svc_features = [], svc_experts = None,
                  svc_process = None, svc_promises = None, svc_cta = None, svc_faqs = [] \<rparr>"

definition ex_service_req :: service_req where
  "ex_service_req = \<lparr> sb_section = None, sb_title = None, sb_subtitle = None,
                      sb_description = None, sb_content = Some ''New markdown text'',
                      sb_features = None, sb_experts = None, sb_process = None,
                      sb_promises = None, sb_cta = None, sb_order = None, sb_status = None \<rparr>"

definition ex_section :: service_section where
  "ex_section = \<lparr> sec_name = Some ''Writing'', sec_description = None,
                  sec_slug = Some ''writing'', sec_order = 0, sec_status = SEC_LIVE \<rparr>"

definition ex_testimonial :: testimonial where
  "ex_testimonial = \<lparr> t_name = Some ''Ada'', t_content = Some ''Very good'', t_stars = 5,
                      t_location = Some ''Paris'', t_imageUrl = None, t_status = T_draft,
                      t_forHomepage = False \<rparr>"

definition ex_testimonial_req :: testimonial_req where
  "ex_testimonial_req = \<lparr> tb_name = Some ''Ada'', tb_content = Some ''Very good'',
                          tb_stars = Some 5, tb_location = Some ''Paris'',
                          tb_forHomepage = None, tb_status = Some ''published'',
                          tb_image = None \<rparr>"

definition ex_testimonial_update :: testimonial_req where
  "ex_testimonial_update = \<lparr> tb_name = Some [], tb_content = None, tb_stars = None,
                             tb_location = Some [], tb_forHomepage = None,
                             tb_status = None, tb_image = None \<rparr>"

definition ex_blog :: blog where
  "ex_blog = \<lparr> blog_title = Some ''Intro to Testing!'', blog_subtitle = None,
               blog_description = Some ''A first article'',
               blog_slug = Some ''intro-to-testing'',
               blog_contentUrl = Some ''https://cdn.example/blog.md'',
               blog_thumbnailUrl = None, blog_creator = 3, blog_views = 0,
               blog_category = Some ''General'', blog_datePublished = None,
               blog_authorName = Some ''Ada'', blog_tableOfContents = [], blog_tags = [],
               blog_readTime = Some 1, blog_status = B_DRAFT, blog_ctaSection = None,
               blog_readMore = None, blog_faqs = [] \<rparr>"

definition ex_samples_query :: samples_query where
  "ex_samples_query = \<lparr> q_subject = None, q_topic = None, q_academicLevel = None,
                        q_status = Some ''Draft'', q_sort = None, q_page = None,
                        q_limit = None, q_role = None \<rparr>"

definition ex_services_query :: services_query where
  "ex_services_query = \<lparr> sq_sectionId = None, sq_status = Some ''Draft'', sq_search = None,
                         sq_page = None, sq_limit = None, sq_role = Some ''User'' \<rparr>"

definition ex_updated :: sample where
  "ex_updated = ex_sample\<lparr>contentUrl :=
      Some ''https://cdn.example/content/samples/intro-to-testing-content.md''\<rparr>"

definition ex_trace :: "event list" where
  "ex_trace = [Upload ''content/samples/intro-to-testing-content.md'',
               DeleteFile ''old.md'', Save 0]"

definition ex_listing :: "(oid \<times> sample) listing" where
  "ex_listing = \<lparr> items = [(1, ex_sample\<lparr>status := PUBLISHED\<rparr>)],
                  pagination = Some (1, 1, 1), totalItems = 1 \<rparr>"

definition ex_service_updated :: service where
  "ex_service_updated = ex_service\<lparr>svc_contentUrl :=
      Some ''https://cdn.example/content/services/essay-help-content.md''\<rparr>"

definition ex_service_trace :: "event list" where
  "ex_service_trace = [Upload ''content/services/essay-help-content.md'',
                       DeleteFile ''essay.md'', Save 4]"

definition ex_service_listing :: "(oid \<times> service) listing" where
  "ex_service_listing = \<lparr> items = [(1, ex_service\<lparr>svc_status := S_LIVE\<rparr>)],
                          pagination = None, totalItems = 1 \<rparr>"

definition ex_draft_listing :: "(oid \<times> sample) listing" where
  "ex_draft_listing = \<lparr> items = [(0, ex_sample)],
                        pagination = Some (1, 1, 1), totalItems = 1 \<rparr>"

definition ex_other_sample :: sample where
  "ex_other_sample = ex_sample\<lparr>title := Some ''Other'', slug := Some ''other''\<rparr>"

definition ex_raw_create_req :: sample_req where
  "ex_raw_create_req = ex_create_req\<lparr>b_content := Some ''New markdown text''\<rparr>"

definition ex_retitle_req :: sample_req where
  "ex_retitle_req = ex_update_req\<lparr>b_title := Some ''Intro To Testing'', b_content := None\<rparr>"

text \<open>
  The order the specification asks of a content replacement, as a predicate on the effects
  of a call: no delete is attempted on the blob store before a write of the document.
\<close>

fun persist_precedes_delete :: "event list \<Rightarrow> bool" where
  "persist_precedes_delete [] = True"
| "persist_precedes_delete (Save i # es) = True"
| "persist_precedes_delete (DeleteFile p # es) = False"
| "persist_precedes_delete (Upload p # es) = persist_precedes_delete es"

section \<open>Properties of the slug\<close>






lemma hyphen_not_space: "\<not> is_space CHR ''-''"
  by (simp add: is_space_def code_unit_def)












section \<open>Facts about collections\<close>

lemma findById_replace_doc:
  "findById (replace_doc db i d) j =
     (if j = i then (case findById db i of None \<Rightarrow> None | Some x \<Rightarrow> Some d)
      else findById db j)"
  by (induction db) (auto simp: findById_def replace_doc_def split: option.splits)

lemma findById_replace_same:
  "findById db i = Some s \<Longrightarrow> findById (replace_doc db i d) i = Some d"
  by (simp add: findById_replace_doc)

lemma findById_delete_doc:
  "findById (delete_doc db i) j = (if j = i then None else findById db j)"
  by (induction db) (auto simp: findById_def delete_doc_def)

lemma fresh_id_fold:
  "fold (\<lambda>(i, d) m. max (Suc i) m) db n \<ge> n
   \<and> (\<forall>(j, x) \<in> set db. j < fold (\<lambda>(i, d) m. max (Suc i) m) db n)"
proof (induction db arbitrary: n)
  case Nil
  show ?case by simp
next
  case (Cons p db)
  obtain i d where p: "p = (i, d)" by (cases p)
  from Cons [of "max (Suc i) n"] show ?case by (auto simp: p)
qed

lemma fresh_id_fresh: "(j, x) \<in> set db \<Longrightarrow> j < fresh_id db"
  using fresh_id_fold [of 0 db] by (auto simp: fresh_id_def)

lemma findById_fresh: "findById db (fresh_id db) = None"
proof -
  have "fresh_id db \<notin> fst ` set db"
    using fresh_id_fresh [of _ _ db] by force
  then show ?thesis by (simp add: findById_def map_of_eq_None_iff)
qed

lemma findById_insert_doc:
  "findById (insert_doc db d) j = (if j = fresh_id db then Some d else findById db j)"
  using findById_fresh [of db]
  by (auto simp: findById_def insert_doc_def map_add_def split: option.splits)

lemma findOne_None: "findOne p db = None \<longleftrightarrow> (\<forall>x \<in> set db. \<not> p x)"
  by (auto simp: findOne_def find_None_iff)

section \<open>Status of a new entity\<close>

lemma createSample_save_Success:
  "createSample_save now db req t sl url tr0 = (Success c d, db', tr) \<Longrightarrow>
     status d = DRAFT \<and> slug d = Some sl \<and> db' = insert_doc db d"
  by (auto simp: createSample_save_def Let_def split: if_splits)

lemma createSample_save_status:
  "createSample_save now db (req\<lparr>b_status := st\<rparr>) t sl url tr0 =
   createSample_save now db req t sl url tr0"
  by (simp add: createSample_save_def)

lemma createSample_Success:
  "createSample cl now db req = (Success c d, db', tr) \<Longrightarrow>
     status d = DRAFT \<and> db' = insert_doc db d
     \<and> (\<exists>t. b_title req = Some t \<and> slug d = Some (slugify t))"
  unfolding createSample_def Let_def
  by (auto split: if_splits option.splits dest: createSample_save_Success)

lemma createTestimonial_Success:
  assumes "createTestimonial db req = (Success c d, db', tr)"
  obtains v where
    "testimonial_status_of
       (case or_else (tb_status req) (Some ''draft'') of None \<Rightarrow> ''draft'' | Some x \<Rightarrow> x)
     = Some v"
    "t_status d = v" "db' = insert_doc db d"
  using assms unfolding createTestimonial_def
  by (auto simp: Let_def split: option.splits if_splits)

text \<open>
  Claim C3, as amended.  A sample that \<open>createSample\<close> persists has status \<open>Draft\<close>,
  and the handler's result does not depend on the status in the request at all.  A
  testimonial that \<open>createTestimonial\<close> persists has the status supplied in the request
  when one is supplied (a non-empty string, which then is one of the schema's three values),
  and \<open>draft\<close> only when none is.
\<close>

theorem create_status:
  "(createSample cl now db req = (Success c d, db', tr) \<longrightarrow>
       status d = DRAFT \<and> findById db' (fresh_id db) = Some d)
   \<and> createSample cl now db (req\<lparr>b_status := st\<rparr>) = createSample cl now db req
   \<and> (createTestimonial tdb treq = (Success c' t, tdb', tr') \<longrightarrow>
         findById tdb' (fresh_id tdb) = Some t
         \<and> (truthy (tb_status treq) \<longrightarrow>
              (\<exists>x. tb_status treq = Some x \<and> testimonial_status_of x = Some (t_status t)))
         \<and> (\<not> truthy (tb_status treq) \<longrightarrow> t_status t = T_draft))"
proof -
  have a: "createSample cl now db req = (Success c d, db', tr) \<longrightarrow>
       status d = DRAFT \<and> findById db' (fresh_id db) = Some d"
    using createSample_Success [of cl now db req c d db' tr]
    by (auto simp: findById_insert_doc)
  have b: "createSample cl now db (req\<lparr>b_status := st\<rparr>) = createSample cl now db req"
  proof -
    have sel: "errors (req\<lparr>b_status := st\<rparr>) = errors req"
      "b_title (req\<lparr>b_status := st\<rparr>) = b_title req"
      "b_content (req\<lparr>b_status := st\<rparr>) = b_content req"
      by simp_all
    show ?thesis
      unfolding createSample_def createSample_save_status sel ..
  qed
  have c: "createTestimonial tdb treq = (Success c' t, tdb', tr') \<longrightarrow>
         findById tdb' (fresh_id tdb) = Some t
         \<and> (truthy (tb_status treq) \<longrightarrow>
              (\<exists>x. tb_status treq = Some x \<and> testimonial_status_of x = Some (t_status t)))
         \<and> (\<not> truthy (tb_status treq) \<longrightarrow> t_status t = T_draft)"
  proof
    assume h: "createTestimonial tdb treq = (Success c' t, tdb', tr')"
    then obtain v where
      v: "testimonial_status_of
            (case or_else (tb_status treq) (Some ''draft'') of None \<Rightarrow> ''draft'' | Some x \<Rightarrow> x)
          = Some v" and
      tv: "t_status t = v" and db': "tdb' = insert_doc tdb t"
      by (rule createTestimonial_Success)
    have f: "findById tdb' (fresh_id tdb) = Some t"
      by (simp add: db' findById_insert_doc)
    have y: "truthy (tb_status treq) \<longrightarrow>
              (\<exists>x. tb_status treq = Some x \<and> testimonial_status_of x = Some (t_status t))"
      using v tv by (auto simp: or_else_def truthy_def split: option.splits)
    have "testimonial_status_of ''draft'' = Some T_draft"
      by (simp add: testimonial_status_of_def)
    then have n: "\<not> truthy (tb_status treq) \<longrightarrow> t_status t = T_draft"
      using v tv by (auto simp: or_else_def)
    from f y n show "findById tdb' (fresh_id tdb) = Some t
         \<and> (truthy (tb_status treq) \<longrightarrow>
              (\<exists>x. tb_status treq = Some x \<and> testimonial_status_of x = Some (t_status t)))
         \<and> (\<not> truthy (tb_status treq) \<longrightarrow> t_status t = T_draft)"
      by blast
  qed
  from a b c show ?thesis by blast
qed

text \<open>
  The theorem on the creation of the first sample and of the first testimonial, the latter
  by a request that names no status.
\<close>

theorem create_status_witness:
  "createSample ok_cloud 1 [] ex_create_req = (Success 201 ex_sample, [(0, ex_sample)], [Save 0])
   \<and> status ex_sample = DRAFT
   \<and> findById [(0, ex_sample)] (fresh_id ([] :: sample collection)) = Some ex_sample
   \<and> createTestimonial [] (ex_testimonial_req\<lparr>tb_status := None\<rparr>) =
       (Success 201 ex_testimonial, [(0, ex_testimonial)], [Save 0])
   \<and> t_status ex_testimonial = T_draft"
proof -
  have e: "createSample ok_cloud 1 [] ex_create_req
             = (Success 201 ex_sample, [(0, ex_sample)], [Save 0])"
    by code_simp
  have r: "status ex_sample = DRAFT
           \<and> findById [(0, ex_sample)] (fresh_id ([] :: sample collection)) = Some ex_sample"
    by (rule create_status [THEN conjunct1, THEN mp, OF e])
  have e2: "createTestimonial [] (ex_testimonial_req\<lparr>tb_status := None\<rparr>) =
       (Success 201 ex_testimonial, [(0, ex_testimonial)], [Save 0])"
    by code_simp
  have n: "\<not> truthy (tb_status (ex_testimonial_req\<lparr>tb_status := None\<rparr>))"
    by (simp add: truthy_def)
  from create_status [THEN conjunct2, THEN conjunct2, THEN mp, OF e2] n
  have t: "t_status ex_testimonial = T_draft" by blast
  from r have r1: "status ex_sample = DRAFT"
    and r2: "findById [(0, ex_sample)] (fresh_id ([] :: sample collection)) = Some ex_sample"
    by blast+
  show ?thesis by (rule conjI [OF e conjI [OF r1 conjI [OF r2 conjI [OF e2 t]]]])
qed

text \<open>
  The claim as stated fails on \<open>createTestimonial\<close>: a request with status
  \<open>published\<close> persists a testimonial that is published, not a draft.
\<close>

theorem create_status_counterexample:
  "createTestimonial [] ex_testimonial_req =
     (Success 201 (ex_testimonial\<lparr>t_status := T_published\<rparr>),
      [(0, ex_testimonial\<lparr>t_status := T_published\<rparr>)], [Save 0])
   \<and> t_status (ex_testimonial\<lparr>t_status := T_published\<rparr>) \<noteq> T_draft"
proof -
  have "createTestimonial [] ex_testimonial_req =
     (Success 201 (ex_testimonial\<lparr>t_status := T_published\<rparr>),
      [(0, ex_testimonial\<lparr>t_status := T_published\<rparr>)], [Save 0])"
    by code_simp
  then show ?thesis by simp
qed

section \<open>Partial updates\<close>

lemma updateSample_slug_Inr:
  "updateSample_slug db i s t = Inr s1 \<Longrightarrow> s1 = s \<or> (\<exists>x. s1 = s\<lparr>slug := x\<rparr>)"
  by (auto simp: updateSample_slug_def Let_def split: if_splits option.splits)

lemma updateSample_status_Some:
  "updateSample_status s req = Some s2 \<Longrightarrow> s2 = s \<or> (\<exists>v. s2 = s\<lparr>status := v\<rparr>)"
  by (auto simp: updateSample_status_def split: if_splits option.splits)

lemma updateSample_Success:
  assumes "updateSample cl db i req = (Success c d, db', tr)"
      and "findById db i = Some s"
  obtains s1 url tr0 where
    "updateSample_slug db i s (b_title req) = Inr s1"
    "replace_content cl (sample_public_id (slug s1)) None (contentUrl s1) (b_content req)
       = (Inr url, tr0)"
    "updateSample_status (updateSample_fields s1 url req) req = Some d"
    "sample_valid d" "db' = replace_doc db i d" "tr = tr0 @ [Save i]" "c = 200"
  using assms unfolding updateSample_def
  by (auto split: sum.splits option.splits prod.splits if_splits)

lemma updateTestimonial_image_Some:
  "updateTestimonial_image cl t img = (Some t1, tr) \<Longrightarrow> t1 = t \<or> (\<exists>x. t1 = t\<lparr>t_imageUrl := x\<rparr>)"
  by (auto simp: updateTestimonial_image_def split: if_splits option.splits)

lemma updateTestimonial_fields_Some:
  "updateTestimonial_fields t req = Some t2 \<Longrightarrow>
     t_name t2 = or_else (tb_name req) (t_name t)
     \<and> t_content t2 = or_else (tb_content req) (t_content t)
     \<and> t_location t2 = (if tb_location req \<noteq> None then tb_location req else t_location t)"
  by (auto simp: updateTestimonial_fields_def Let_def split: if_splits option.splits)

lemma updateTestimonial_Success:
  assumes "updateTestimonial cl db i req = (Success c d, db', tr)"
      and "findById db i = Some t"
  obtains t1 tr0 where
    "updateTestimonial_image cl t (tb_image req) = (Some t1, tr0)"
    "updateTestimonial_fields t1 req = Some d"
    "db' = replace_doc db i d"
  using assms unfolding updateTestimonial_def
  by (auto split: option.splits prod.splits if_splits)

text \<open>
  Claim C9, as amended.  After a successful \<open>updateSample\<close> the stored title, subtitle,
  description, subject, topic and academic level are each \<^verbatim>\<open>input || existing\<close>, so a
  falsy input (the empty string or no value) leaves the stored field as it was; the same
  holds for the name and the content after a successful \<open>updateTestimonial\<close>.  The
  testimonial's location is assigned whenever the request supplies it, the empty string
  included.
\<close>

theorem update_or_existing:
  "(updateSample cl db i req = (Success c d, db', tr) \<and> findById db i = Some s \<longrightarrow>
       findById db' i = Some d
       \<and> title d = or_else (b_title req) (title s)
       \<and> subtitle d = or_else (b_subtitle req) (subtitle s)
       \<and> description d = or_else (b_description req) (description s)
       \<and> subject d = or_else (b_subject req) (subject s)
       \<and> topic d = or_else (b_topic req) (topic s)
       \<and> academicLevel d = or_else (b_academicLevel req) (academicLevel s)
       \<and> (\<not> truthy (b_title req) \<longrightarrow> title d = title s)
       \<and> (\<not> truthy (b_subtitle req) \<longrightarrow> subtitle d = subtitle s)
       \<and> (\<not> truthy (b_description req) \<longrightarrow> description d = description s))
   \<and> (updateTestimonial cl tdb i treq = (Success c' t', tdb', tr') \<and> findById tdb i = Some t \<longrightarrow>
       findById tdb' i = Some t'
       \<and> t_name t' = or_else (tb_name treq) (t_name t)
       \<and> t_content t' = or_else (tb_content treq) (t_content t)
       \<and> (\<not> truthy (tb_name treq) \<longrightarrow> t_name t' = t_name t)
       \<and> (\<not> truthy (tb_content treq) \<longrightarrow> t_content t' = t_content t)
       \<and> t_location t' = (if tb_location treq \<noteq> None then tb_location treq else t_location t))"
proof -
  have a: "updateSample cl db i req = (Success c d, db', tr) \<and> findById db i = Some s \<longrightarrow>
       findById db' i = Some d
       \<and> title d = or_else (b_title req) (title s)
       \<and> subtitle d = or_else (b_subtitle req) (subtitle s)
       \<and> description d = or_else (b_description req) (description s)
       \<and> subject d = or_else (b_subject req) (subject s)
       \<and> topic d = or_else (b_topic req) (topic s)
       \<and> academicLevel d = or_else (b_academicLevel req) (academicLevel s)"
  proof
    assume h: "updateSample cl db i req = (Success c d, db', tr) \<and> findById db i = Some s"
    then obtain s1 url tr0 where
      s1: "updateSample_slug db i s (b_title req) = Inr s1" and
      d: "updateSample_status (updateSample_fields s1 url req) req = Some d" and
      db': "db' = replace_doc db i d"
      by (elim conjE updateSample_Success)
    from h db' have f: "findById db' i = Some d" by (simp add: findById_replace_same)
    from updateSample_slug_Inr [OF s1] updateSample_status_Some [OF d] f
    show "findById db' i = Some d
       \<and> title d = or_else (b_title req) (title s)
       \<and> subtitle d = or_else (b_subtitle req) (subtitle s)
       \<and> description d = or_else (b_description req) (description s)
       \<and> subject d = or_else (b_subject req) (subject s)
       \<and> topic d = or_else (b_topic req) (topic s)
       \<and> academicLevel d = or_else (b_academicLevel req) (academicLevel s)"
      by (auto simp: updateSample_fields_def)
  qed
  have b: "updateTestimonial cl tdb i treq = (Success c' t', tdb', tr') \<and> findById tdb i = Some t \<longrightarrow>
       findById tdb' i = Some t'
       \<and> t_name t' = or_else (tb_name treq) (t_name t)
       \<and> t_content t' = or_else (tb_content treq) (t_content t)
       \<and> t_location t' = (if tb_location treq \<noteq> None then tb_location treq else t_location t)"
  proof
    assume h: "updateTestimonial cl tdb i treq = (Success c' t', tdb', tr') \<and> findById tdb i = Some t"
    then obtain t1 tr0 where
      t1: "updateTestimonial_image cl t (tb_image treq) = (Some t1, tr0)" and
      d: "updateTestimonial_fields t1 treq = Some t'" and
      db': "tdb' = replace_doc tdb i t'"
      by (elim conjE updateTestimonial_Success)
    from h db' have f: "findById tdb' i = Some t'" by (simp add: findById_replace_same)
    from updateTestimonial_image_Some [OF t1] updateTestimonial_fields_Some [OF d] f
    show "findById tdb' i = Some t'
       \<and> t_name t' = or_else (tb_name treq) (t_name t)
       \<and> t_content t' = or_else (tb_content treq) (t_content t)
       \<and> t_location t' = (if tb_location treq \<noteq> None then tb_location treq else t_location t)"
      by auto
  qed
  from a b show ?thesis by (simp add: or_else_def)
qed

text \<open>
  The theorem on an update of a stored sample that supplies the empty string for title and
  subtitle together with new content, and on an update of a testimonial that supplies the
  empty string for its name.
\<close>

theorem update_or_existing_witness:
  "updateSample ok_cloud [(0, ex_sample)] 0 ex_update_req =
     (Success 200 ex_updated, [(0, ex_updated)], ex_trace)
   \<and> title ex_updated = title ex_sample
   \<and> subtitle ex_updated = subtitle ex_sample
   \<and> updateTestimonial ok_cloud [(0, ex_testimonial)] 0 ex_testimonial_update =
     (Success 200 (ex_testimonial\<lparr>t_location := Some []\<rparr>),
      [(0, ex_testimonial\<lparr>t_location := Some []\<rparr>)], [Save 0])
   \<and> t_name (ex_testimonial\<lparr>t_location := Some []\<rparr>) = t_name ex_testimonial
   \<and> t_content (ex_testimonial\<lparr>t_location := Some []\<rparr>) = t_content ex_testimonial"
proof -
  have e: "updateSample ok_cloud [(0, ex_sample)] 0 ex_update_req =
     (Success 200 ex_updated, [(0, ex_updated)], ex_trace)"
    by code_simp
  have f: "findById [(0, ex_sample)] 0 = Some ex_sample"
    by (simp add: findById_def)
  have t: "\<not> truthy (b_title ex_update_req)" "\<not> truthy (b_subtitle ex_update_req)"
    by (simp_all add: ex_update_req_def truthy_def)
  note r = update_or_existing [THEN conjunct1, THEN mp, OF conjI [OF e f]]
  from r t have a1: "title ex_updated = title ex_sample"
    and a2: "subtitle ex_updated = subtitle ex_sample"
    by blast+
  have e2: "updateTestimonial ok_cloud [(0, ex_testimonial)] 0 ex_testimonial_update =
     (Success 200 (ex_testimonial\<lparr>t_location := Some []\<rparr>),
      [(0, ex_testimonial\<lparr>t_location := Some []\<rparr>)], [Save 0])"
    by code_simp
  have f2: "findById [(0, ex_testimonial)] 0 = Some ex_testimonial"
    by (simp add: findById_def)
  have t2: "\<not> truthy (tb_name ex_testimonial_update)" "\<not> truthy (tb_content ex_testimonial_update)"
    by (simp_all add: ex_testimonial_update_def truthy_def)
  note r2 = update_or_existing [THEN conjunct2, THEN mp, OF conjI [OF e2 f2]]
  from r2 t2 have b1: "t_name (ex_testimonial\<lparr>t_location := Some []\<rparr>) = t_name ex_testimonial"
    and b2: "t_content (ex_testimonial\<lparr>t_location := Some []\<rparr>) = t_content ex_testimonial"
    by blast+
  show ?thesis by (rule conjI [OF e conjI [OF a1 conjI [OF a2 conjI [OF e2 conjI [OF b1 b2]]]]])
qed

text \<open>
  The claim as stated fails on the location of a testimonial: an update that supplies
  the empty string stores the empty string in place of \<open>Paris\<close>.
\<close>

theorem update_or_existing_counterexample:
  "updateTestimonial ok_cloud [(0, ex_testimonial)] 0 ex_testimonial_update =
     (Success 200 (ex_testimonial\<lparr>t_location := Some []\<rparr>),
      [(0, ex_testimonial\<lparr>t_location := Some []\<rparr>)], [Save 0])
   \<and> t_location ex_testimonial = Some ''Paris''
   \<and> t_location (ex_testimonial\<lparr>t_location := Some []\<rparr>) = Some []"
proof -
  have "updateTestimonial ok_cloud [(0, ex_testimonial)] 0 ex_testimonial_update =
     (Success 200 (ex_testimonial\<lparr>t_location := Some []\<rparr>),
      [(0, ex_testimonial\<lparr>t_location := Some []\<rparr>)], [Save 0])"
    by code_simp
  then show ?thesis by (simp add: ex_testimonial_def)
qed

section \<open>Uniqueness of the slug\<close>

lemma findOne_found: "x \<in> set db \<Longrightarrow> p x \<Longrightarrow> findOne p db \<noteq> None"
  by (cases x) (auto simp: findOne_def find_None_iff)

lemma createSample_conflict:
  assumes "errors req = []" and "b_title req = Some t"
      and "(j, x) \<in> set db" and "slug x = Some (slugify t)"
  shows "createSample cl now db req =
           (Failure 400 ''A sample with this title already exists'', db, [])"
proof -
  have "findOne (\<lambda>(i, d). slug d = Some (slugify t)) db \<noteq> None"
    using assms(3,4) by (intro findOne_found [of "(j, x)"]) simp_all
  with assms(1,2) show ?thesis by (simp add: createSample_def Let_def)
qed

lemma updateSample_no_400:
  assumes "updateSample_slug db i s (b_title req) = Inr s1" and "findById db i = Some s"
  shows "fst (updateSample cl db i req) \<noteq> Failure 400 m"
  using assms unfolding updateSample_def
  by (auto split: sum.splits option.splits prod.splits if_splits)

text \<open>
  Claim C6.  When a create has persisted a sample and a second create, whose request
  passes validation, has a title that normalises to the same slug, the second create is
  answered with the 400 "already exists" conflict, performs no upload and no write, and
  returns the collection unchanged, so that the first sample is still stored with its slug.
  On update, a title whose slug only the updated sample itself carries never leads to a
  400 answer, while a new title whose slug another sample carries is answered with the
  conflict and changes nothing.
\<close>

theorem slug_conflict:
  "(createSample cl now db r1 = (Success c d, db1, tr) \<and> b_title r1 = Some t1
      \<and> errors r2 = [] \<and> b_title r2 = Some t2 \<and> slugify t2 = slugify t1 \<longrightarrow>
        createSample cl' now' db1 r2 =
          (Failure 400 ''A sample with this title already exists'', db1, [])
        \<and> findById db1 (fresh_id db) = Some d \<and> slug d = Some (slugify t1))
   \<and> (findById db i = Some s \<and> b_title req = Some t
        \<and> (\<forall>(j, x) \<in> set db. slug x = Some (slugify t) \<longrightarrow> j = i) \<longrightarrow>
        fst (updateSample cl db i req) \<noteq> Failure 400 m)
   \<and> (findById db i = Some s \<and> b_title req = Some t \<and> t \<noteq> [] \<and> Some t \<noteq> title s
        \<and> (j, x) \<in> set db \<and> j \<noteq> i \<and> slug x = Some (slugify t) \<longrightarrow>
        updateSample cl db i req =
          (Failure 400 ''A sample with this title already exists'', db, []))"
proof -
  have a: "createSample cl now db r1 = (Success c d, db1, tr) \<and> b_title r1 = Some t1
      \<and> errors r2 = [] \<and> b_title r2 = Some t2 \<and> slugify t2 = slugify t1 \<longrightarrow>
        createSample cl' now' db1 r2 =
          (Failure 400 ''A sample with this title already exists'', db1, [])
        \<and> findById db1 (fresh_id db) = Some d \<and> slug d = Some (slugify t1)"
  proof
    assume h: "createSample cl now db r1 = (Success c d, db1, tr) \<and> b_title r1 = Some t1
      \<and> errors r2 = [] \<and> b_title r2 = Some t2 \<and> slugify t2 = slugify t1"
    with createSample_Success [of cl now db r1 c d db1 tr]
    have db1: "db1 = insert_doc db d" and sl: "slug d = Some (slugify t1)" by auto
    then have "(fresh_id db, d) \<in> set db1" by (simp add: insert_doc_def)
    moreover from h sl have "slug d = Some (slugify t2)" by simp
    ultimately have "createSample cl' now' db1 r2 =
          (Failure 400 ''A sample with this title already exists'', db1, [])"
      using h createSample_conflict by blast
    with db1 sl show "createSample cl' now' db1 r2 =
          (Failure 400 ''A sample with this title already exists'', db1, [])
        \<and> findById db1 (fresh_id db) = Some d \<and> slug d = Some (slugify t1)"
      by (simp add: findById_insert_doc)
  qed
  have b: "findById db i = Some s \<and> b_title req = Some t
        \<and> (\<forall>(j, x) \<in> set db. slug x = Some (slugify t) \<longrightarrow> j = i) \<longrightarrow>
        fst (updateSample cl db i req) \<noteq> Failure 400 m"
  proof
    assume h: "findById db i = Some s \<and> b_title req = Some t
        \<and> (\<forall>(j, x) \<in> set db. slug x = Some (slugify t) \<longrightarrow> j = i)"
    then have "findOne (\<lambda>(j, d). slug d = Some (slugify t) \<and> j \<noteq> i) db = None"
      by (auto simp: findOne_None)
    with h have "\<exists>s1. updateSample_slug db i s (b_title req) = Inr s1"
      by (simp add: updateSample_slug_def Let_def)
    with h show "fst (updateSample cl db i req) \<noteq> Failure 400 m"
      using updateSample_no_400 by blast
  qed
  have c: "findById db i = Some s \<and> b_title req = Some t \<and> t \<noteq> [] \<and> Some t \<noteq> title s
        \<and> (j, x) \<in> set db \<and> j \<noteq> i \<and> slug x = Some (slugify t) \<longrightarrow>
        updateSample cl db i req =
          (Failure 400 ''A sample with this title already exists'', db, [])"
  proof
    assume h: "findById db i = Some s \<and> b_title req = Some t \<and> t \<noteq> [] \<and> Some t \<noteq> title s
        \<and> (j, x) \<in> set db \<and> j \<noteq> i \<and> slug x = Some (slugify t)"
    then have "findOne (\<lambda>(j, d). slug d = Some (slugify t) \<and> j \<noteq> i) db \<noteq> None"
      by (intro findOne_found [of "(j, x)"]) simp_all
    with h have "updateSample_slug db i s (b_title req)
                   = Inl ''A sample with this title already exists''"
      by (simp add: updateSample_slug_def Let_def truthy_def)
    with h show "updateSample cl db i req =
          (Failure 400 ''A sample with this title already exists'', db, [])"
      by (simp add: updateSample_def)
  qed
  from a b c show ?thesis by blast
qed

text \<open>
  The theorem on two creates whose titles differ in case and punctuation only, on a sample
  that is given such a variant of its own title, and on another sample that asks for it.
\<close>

theorem slug_conflict_witness:
  "createSample ok_cloud 1 [] ex_create_req = (Success 201 ex_sample, [(0, ex_sample)], [Save 0])
   \<and> slugify ''Intro To Testing'' = slugify ''Intro to Testing!''
   \<and> createSample ok_cloud 2 [(0, ex_sample)] (ex_create_req\<lparr>b_title := Some ''Intro To Testing''\<rparr>) =
        (Failure 400 ''A sample with this title already exists'', [(0, ex_sample)], [])
   \<and> fst (updateSample ok_cloud [(0, ex_sample)] 0 ex_retitle_req)
        \<noteq> Failure 400 ''A sample with this title already exists''
   \<and> updateSample ok_cloud [(0, ex_sample), (1, ex_other_sample)] 1 ex_retitle_req =
        (Failure 400 ''A sample with this title already exists'',
         [(0, ex_sample), (1, ex_other_sample)], [])"
proof -
  have e: "createSample ok_cloud 1 [] ex_create_req
             = (Success 201 ex_sample, [(0, ex_sample)], [Save 0])"
    by code_simp
  have s: "slugify ''Intro To Testing'' = slugify ''Intro to Testing!''"
    by code_simp
  have t1: "b_title ex_create_req = Some ''Intro to Testing!''"
    by (simp add: ex_create_req_def)
  have e2: "errors (ex_create_req\<lparr>b_title := Some ''Intro To Testing''\<rparr>) = []"
    by (simp add: ex_create_req_def)
  have t2: "b_title (ex_create_req\<lparr>b_title := Some ''Intro To Testing''\<rparr>)
              = Some ''Intro To Testing''"
    by simp
  note r = slug_conflict [THEN conjunct1, THEN mp, OF conjI [OF e conjI [OF t1 conjI [OF e2 conjI [OF t2 s]]]],
             THEN conjunct1, of ok_cloud 2]
  have f: "findById [(0, ex_sample)] 0 = Some ex_sample"
    by (simp add: findById_def)
  have t: "b_title ex_retitle_req = Some ''Intro To Testing''"
    by (simp add: ex_retitle_req_def)
  have own: "\<forall>(j, x) \<in> set [(0 :: oid, ex_sample)]. slug x = Some (slugify ''Intro To Testing'') \<longrightarrow> j = 0"
    by simp
  note r2 = slug_conflict [THEN conjunct2, THEN conjunct1, THEN mp,
              OF conjI [OF f conjI [OF t own]], of ok_cloud "''A sample with this title already exists''"]
  have sv: "slugify ''Intro To Testing'' = ''intro-to-testing''"
    by code_simp
  have f3: "findById [(0, ex_sample), (1, ex_other_sample)] 1 = Some ex_other_sample"
    by (simp add: findById_def)
  have h3: "''Intro To Testing'' \<noteq> [] \<and> Some ''Intro To Testing'' \<noteq> title ex_other_sample
            \<and> (0, ex_sample) \<in> set [(0, ex_sample), (1, ex_other_sample)] \<and> (0 :: oid) \<noteq> 1
            \<and> slug ex_sample = Some (slugify ''Intro To Testing'')"
    using sv by (simp add: ex_other_sample_def ex_sample_def)
  note r3 = slug_conflict [THEN conjunct2, THEN conjunct2, THEN mp,
              OF conjI [OF f3 conjI [OF t h3]], of ok_cloud]
  show ?thesis by (rule conjI [OF e conjI [OF s conjI [OF r conjI [OF r2 r3]]]])
qed

section \<open>Visibility in listings\<close>

lemma skip_limit_subset: "skip_limit n m ds = Some rs \<Longrightarrow> set rs \<subseteq> set ds"
  by (auto simp: skip_limit_def split: if_splits dest: in_set_takeD in_set_dropD)

lemma getSamples_items:
  "getSamples db q = Success c l \<Longrightarrow> set (items l) \<subseteq> {(i, d) \<in> set db. samples_filter q d}"
proof -
  assume h: "getSamples db q = Success c l"
  let ?m = "filter (\<lambda>(i, d). samples_filter q d) db"
  let ?srt = "case q_sort q of None \<Rightarrow> Some ''rating'' | Some x \<Rightarrow> Some x"
  from h obtain rs where rs: "skip_limit ((int_or (q_page q) 1 - 1) * int_or (q_limit q) 10)
        (int_or (q_limit q) 10) (samples_sort ?srt ?m) = Some rs" and l: "items l = rs"
    by (auto simp: getSamples_def Let_def split: option.splits)
  have "set (samples_sort ?srt ?m) = set ?m" by (simp add: samples_sort_def)
  with skip_limit_subset [OF rs] l show ?thesis by auto
qed

lemma getServices_items:
  "getServices rx db q = Success c l \<Longrightarrow>
     set (items l) \<subseteq> {(i, d) \<in> set db. services_filter rx q d}"
proof -
  assume h: "getServices rx db q = Success c l"
  let ?m = "sort_key (\<lambda>(i, d). svc_order d) (filter (\<lambda>(i, d). services_filter rx q d) db)"
  have m: "set ?m = {(i, d) \<in> set db. services_filter rx q d}" by auto
  from h have "items l = ?m \<or> (\<exists>n k. skip_limit n k ?m = Some (items l))"
    by (auto simp: getServices_def Let_def split: option.splits if_splits)
  then show ?thesis
  proof
    assume "items l = ?m"
    with m show ?thesis by simp
  next
    assume "\<exists>n k. skip_limit n k ?m = Some (items l)"
    then obtain n k where "skip_limit n k ?m = Some (items l)" by blast
    from skip_limit_subset [OF this] m show ?thesis by simp
  qed
qed

text \<open>
  Claim C5.  A caller whose role is neither \<open>Admin\<close> nor \<open>Super_Admin\<close> (or who has no
  role) receives from \<open>getSamples\<close> only published samples and from \<open>getServices\<close> only
  live services, whatever the query asks for; an elevated caller who names a status
  receives only documents of that status.  With no page parameter both handlers answer
  with a listing.
\<close>

theorem listing_visibility:
  "(\<not> is_admin (q_role q) \<and> getSamples db q = Success c l \<longrightarrow>
      (\<forall>(i, d) \<in> set (items l). status d = PUBLISHED))
   \<and> (\<not> is_admin (sq_role sq) \<and> getServices rx sdb sq = Success c' sl \<longrightarrow>
      (\<forall>(i, d) \<in> set (items sl). svc_status d = S_LIVE))
   \<and> (is_admin (q_role q) \<and> q_status q = Some st \<and> st \<noteq> [] \<and> getSamples db q = Success c l \<longrightarrow>
      (\<forall>(i, d) \<in> set (items l). sample_status_string (status d) = st))
   \<and> (is_admin (sq_role sq) \<and> sq_status sq = Some st' \<and> st' \<noteq> []
        \<and> getServices rx sdb sq = Success c' sl \<longrightarrow>
      (\<forall>(i, d) \<in> set (items sl). service_status_string (svc_status d) = st'))
   \<and> (\<exists>c l. getSamples db (q\<lparr>q_page := None\<rparr>) = Success c l)
   \<and> (\<exists>c l. getServices rx sdb (sq\<lparr>sq_page := None\<rparr>) = Success c l)"
proof -
  have a: "\<not> is_admin (q_role q) \<and> getSamples db q = Success c l \<longrightarrow>
      (\<forall>(i, d) \<in> set (items l). status d = PUBLISHED)"
    using getSamples_items [of db q c l] by (auto simp: samples_filter_def)
  have b: "\<not> is_admin (sq_role sq) \<and> getServices rx sdb sq = Success c' sl \<longrightarrow>
      (\<forall>(i, d) \<in> set (items sl). svc_status d = S_LIVE)"
    using getServices_items [of rx sdb sq c' sl] by (auto simp: services_filter_def)
  have c: "is_admin (q_role q) \<and> q_status q = Some st \<and> st \<noteq> [] \<and> getSamples db q = Success c l \<longrightarrow>
      (\<forall>(i, d) \<in> set (items l). sample_status_string (status d) = st)"
    using getSamples_items [of db q c l] by (auto simp: samples_filter_def truthy_def)
  have d: "is_admin (sq_role sq) \<and> sq_status sq = Some st' \<and> st' \<noteq> []
        \<and> getServices rx sdb sq = Success c' sl \<longrightarrow>
      (\<forall>(i, d) \<in> set (items sl). service_status_string (svc_status d) = st')"
    using getServices_items [of rx sdb sq c' sl] by (auto simp: services_filter_def truthy_def)
  have e: "\<exists>c l. getSamples db (q\<lparr>q_page := None\<rparr>) = Success c l"
    by (simp add: getSamples_def Let_def int_or_def skip_limit_def)
  have f: "\<exists>c l. getServices rx sdb (sq\<lparr>sq_page := None\<rparr>) = Success c l"
    by (simp add: getServices_def Let_def int_or_def skip_limit_def split: option.splits)
  from a b c d e f show ?thesis by blast
qed

text \<open>
  The theorem on callers who ask for drafts: without an elevated role they are listed the
  published sample, or the live service, alone; an admin is listed the draft.
\<close>

theorem listing_visibility_witness:
  "getSamples [(0, ex_sample), (1, ex_sample\<lparr>status := PUBLISHED\<rparr>)] ex_samples_query =
     Success 200 ex_listing
   \<and> list_all (\<lambda>(i, d). status d = PUBLISHED) (items ex_listing)
   \<and> getServices (\<lambda>p t. True) [(0, ex_service), (1, ex_service\<lparr>svc_status := S_LIVE\<rparr>)]
         ex_services_query = Success 200 ex_service_listing
   \<and> list_all (\<lambda>(i, d). svc_status d = S_LIVE) (items ex_service_listing)
   \<and> getSamples [(0, ex_sample), (1, ex_sample\<lparr>status := PUBLISHED\<rparr>)]
         (ex_samples_query\<lparr>q_role := Some ''Admin''\<rparr>) = Success 200 ex_draft_listing
   \<and> list_all (\<lambda>(i, d). sample_status_string (status d) = ''Draft'') (items ex_draft_listing)"
proof -
  have e: "getSamples [(0, ex_sample), (1, ex_sample\<lparr>status := PUBLISHED\<rparr>)] ex_samples_query
             = Success 200 ex_listing"
    by code_simp
  have n: "\<not> is_admin (q_role ex_samples_query)"
    by (simp add: ex_samples_query_def is_admin_def)
  have "\<forall>(i, d) \<in> set (items ex_listing). status d = PUBLISHED"
    by (rule listing_visibility [THEN conjunct1, THEN mp, OF conjI [OF n e]])
  then have l: "list_all (\<lambda>(i, d). status d = PUBLISHED) (items ex_listing)"
    by (simp only: list_all_iff)
  have e2: "getServices (\<lambda>p t. True) [(0, ex_service), (1, ex_service\<lparr>svc_status := S_LIVE\<rparr>)]
         ex_services_query = Success 200 ex_service_listing"
    by code_simp
  have n2: "\<not> is_admin (sq_role ex_services_query)"
    by (simp add: ex_services_query_def is_admin_def)
  have "\<forall>(i, d) \<in> set (items ex_service_listing). svc_status d = S_LIVE"
    by (rule listing_visibility [THEN conjunct2, THEN conjunct1, THEN mp, OF conjI [OF n2 e2]])
  then have l2: "list_all (\<lambda>(i, d). svc_status d = S_LIVE) (items ex_service_listing)"
    by (simp only: list_all_iff)
  have e3: "getSamples [(0, ex_sample), (1, ex_sample\<lparr>status := PUBLISHED\<rparr>)]
         (ex_samples_query\<lparr>q_role := Some ''Admin''\<rparr>) = Success 200 ex_draft_listing"
    by code_simp
  have a3: "is_admin (q_role (ex_samples_query\<lparr>q_role := Some ''Admin''\<rparr>))"
    by (simp add: is_admin_def)
  have s3: "q_status (ex_samples_query\<lparr>q_role := Some ''Admin''\<rparr>) = Some ''Draft''"
    by (simp add: ex_samples_query_def)
  have ne: "''Draft'' \<noteq> []" by simp
  have "\<forall>(i, d) \<in> set (items ex_draft_listing). sample_status_string (status d) = ''Draft''"
    by (rule listing_visibility [THEN conjunct2, THEN conjunct2, THEN conjunct1, THEN mp,
          OF conjI [OF a3 conjI [OF s3 conjI [OF ne e3]]]])
  then have l3: "list_all (\<lambda>(i, d). sample_status_string (status d) = ''Draft'')
                   (items ex_draft_listing)"
    by (simp only: list_all_iff)
  show ?thesis by (rule conjI [OF e conjI [OF l conjI [OF e2 conjI [OF l2 conjI [OF e3 l3]]]]])
qed

section \<open>Replacing the content blob\<close>

lemma replace_content_cases:
  assumes "replace_content cl pid cur old content = (x, tr)"
  shows "(x = Inr content \<and> tr = []
            \<and> (content = None \<or> content = cur \<or> (\<exists>c. content = Some c \<and> startsWith_http c)))
         \<or> (\<exists>c. content = Some c \<and> upload cl pid c = None
                \<and> x = Inl ''Error uploading content'' \<and> tr = [Upload pid])
         \<or> (\<exists>c u. content = Some c \<and> upload cl pid c = Some u
                \<and> x = Inr (Some u) \<and> tr = [Upload pid])
         \<or> (\<exists>c u prev. content = Some c \<and> upload cl pid c = Some u \<and> old = Some prev
                \<and> tr = [Upload pid, DeleteFile (getPublicIdFromUrl cl prev)]
                \<and> (x = Inr (Some u) \<or> x = Inl ''Error uploading content''))"
  using assms unfolding replace_content_def Let_def
  by (auto split: option.splits if_splits)

lemma replace_content_raw:
  assumes "content = Some c" and "content \<noteq> cur" and "\<not> startsWith_http c"
      and "upload cl pid c = None"
  shows "replace_content cl pid cur old content = (Inl ''Error uploading content'', [Upload pid])"
  using assms by (simp add: replace_content_def)

lemma updateSample_fields_sel:
  "slug (updateSample_fields s1 url req) = slug s1"
  "contentUrl (updateSample_fields s1 url req) = (if url \<noteq> None then url else contentUrl s1)"
  by (simp_all add: updateSample_fields_def)

lemma updateSample_status_slug:
  assumes "updateSample_status (updateSample_fields s1 url req) req = Some d"
  shows "slug d = slug s1 \<and> contentUrl d = (if url \<noteq> None then url else contentUrl s1)"
  using updateSample_status_Some [OF assms] updateSample_fields_sel [of s1 url req]
  by auto

lemma updateService_fields_sel:
  "svc_slug (updateService_fields s1 url req) = svc_slug s1"
  "svc_contentUrl (updateService_fields s1 url req)
     = (if url \<noteq> None then url else svc_contentUrl s1)"
  by (simp_all add: updateService_fields_def)

lemma updateService_status_Some:
  "updateService_status s req = Some s2 \<Longrightarrow> s2 = s \<or> (\<exists>v. s2 = s\<lparr>svc_status := v\<rparr>)"
  by (auto simp: updateService_status_def split: if_splits option.splits)

lemma updateService_fields_slug:
  assumes "updateService_status (updateService_fields s1 url req) req = Some d"
  shows "svc_slug d = svc_slug s1
         \<and> svc_contentUrl d = (if url \<noteq> None then url else svc_contentUrl s1)"
  using updateService_status_Some [OF assms] updateService_fields_sel [of s1 url req]
  by auto

lemma updateService_slug_Inr:
  "updateService_slug db i s t = Inr s1 \<Longrightarrow> svc_contentUrl s1 = svc_contentUrl s"
  by (auto simp: updateService_slug_def Let_def split: if_splits option.splits)

lemma updateSample_slug_contentUrl:
  "updateSample_slug db i s t = Inr s1 \<Longrightarrow> contentUrl s1 = contentUrl s"
  by (auto simp: updateSample_slug_def Let_def split: if_splits option.splits)

lemma updateSample_slug_Inl:
  "updateSample_slug db i s t = Inl m \<Longrightarrow> m = ''A sample with this title already exists''"
  by (auto simp: updateSample_slug_def Let_def split: if_splits option.splits)

lemma updateService_slug_Inl:
  "updateService_slug db i s t = Inl m \<Longrightarrow> m = ''A service with this title already exists''"
  by (auto simp: updateService_slug_def Let_def split: if_splits option.splits)

lemma updateSample_cases [consumes 2, case_names conflict blob_error invalid saved]:
  assumes u: "updateSample cl db i req = (r, db', tr)" and f: "findById db i = Some s"
  obtains
    "r = Failure 400 ''A sample with this title already exists''" "db' = db" "tr = []"
  | s1 m where
      "updateSample_slug db i s (b_title req) = Inr s1"
      "replace_content cl (sample_public_id (slug s1)) None (contentUrl s1) (b_content req)
         = (Inl m, tr)"
      "r = Failure 500 m" "db' = db"
  | s1 url where
      "updateSample_slug db i s (b_title req) = Inr s1"
      "replace_content cl (sample_public_id (slug s1)) None (contentUrl s1) (b_content req)
         = (Inr url, tr)"
      "r = Failure 500 ''Error updating sample''" "db' = db"
  | s1 url tr0 d where
      "updateSample_slug db i s (b_title req) = Inr s1"
      "replace_content cl (sample_public_id (slug s1)) None (contentUrl s1) (b_content req)
         = (Inr url, tr0)"
      "updateSample_status (updateSample_fields s1 url req) req = Some d"
      "sample_valid d" "r = Success 200 d" "db' = replace_doc db i d" "tr = tr0 @ [Save i]"
proof (cases "updateSample_slug db i s (b_title req)")
  case (Inl m)
  with u f updateSample_slug_Inl [OF Inl]
  have "r = Failure 400 ''A sample with this title already exists'' \<and> db' = db \<and> tr = []"
    by (simp add: updateSample_def)
  then show ?thesis using that(1) by blast
next
  case s1: (Inr s1)
  obtain x tr0 where rc:
    "replace_content cl (sample_public_id (slug s1)) None (contentUrl s1) (b_content req)
       = (x, tr0)"
    by (cases "replace_content cl (sample_public_id (slug s1)) None (contentUrl s1)
                 (b_content req)")
  show ?thesis
  proof (cases x)
    case (Inl m)
    with u f s1 rc have "r = Failure 500 m \<and> db' = db \<and> tr = tr0"
      by (simp add: updateSample_def)
    with s1 rc Inl show ?thesis using that(2) by blast
  next
    case url: (Inr url)
    show ?thesis
    proof (cases "updateSample_status (updateSample_fields s1 url req) req")
      case None
      with u f s1 rc url have "r = Failure 500 ''Error updating sample'' \<and> db' = db \<and> tr = tr0"
        by (simp add: updateSample_def)
      with s1 rc url show ?thesis using that(3) by blast
    next
      case (Some d)
      show ?thesis
      proof (cases "sample_valid d")
        case True
        with u f s1 rc url Some
        have "r = Success 200 d \<and> db' = replace_doc db i d \<and> tr = tr0 @ [Save i]"
          by (simp add: updateSample_def)
        with s1 rc url Some True show ?thesis using that(4) by blast
      next
        case False
        with u f s1 rc url Some
        have "r = Failure 500 ''Error updating sample'' \<and> db' = db \<and> tr = tr0"
          by (simp add: updateSample_def)
        with s1 rc url show ?thesis using that(3) by blast
      qed
    qed
  qed
qed

lemma updateService_cases
  [consumes 2, case_names no_section conflict blob_error invalid saved]:
  assumes u: "updateService cl secs db i req = (r, db', tr)" and f: "findById db i = Some s"
  obtains
    "r = Failure 404 ''Section not found''" "db' = db" "tr = []"
  | "r = Failure 400 ''A service with this title already exists''" "db' = db" "tr = []"
  | s1 m where
      "updateService_slug db i s (sb_title req) = Inr s1"
      "replace_content cl (service_public_id (svc_slug s1)) (svc_contentUrl s1)
         (svc_contentUrl s1) (sb_content req) = (Inl m, tr)"
      "r = Failure 500 m" "db' = db"
  | s1 url where
      "updateService_slug db i s (sb_title req) = Inr s1"
      "replace_content cl (service_public_id (svc_slug s1)) (svc_contentUrl s1)
         (svc_contentUrl s1) (sb_content req) = (Inr url, tr)"
      "r = Failure 500 ''Error updating service''" "db' = db"
  | s1 url tr0 d where
      "updateService_slug db i s (sb_title req) = Inr s1"
      "replace_content cl (service_public_id (svc_slug s1)) (svc_contentUrl s1)
         (svc_contentUrl s1) (sb_content req) = (Inr url, tr0)"
      "updateService_status (updateService_fields s1 url req) req = Some d"
      "service_valid d" "r = Success 200 d" "db' = replace_doc db i d" "tr = tr0 @ [Save i]"
proof (cases "case sb_section req of None \<Rightarrow> False
              | Some x \<Rightarrow> x \<noteq> svc_section s \<and> findById secs x = None")
  case True
  with u f have "r = Failure 404 ''Section not found'' \<and> db' = db \<and> tr = []"
    by (simp add: updateService_def)
  then show ?thesis using that(1) by blast
next
  case sec: False
  show ?thesis
  proof (cases "updateService_slug db i s (sb_title req)")
    case (Inl m)
    with u f sec updateService_slug_Inl [OF Inl]
    have "r = Failure 400 ''A service with this title already exists'' \<and> db' = db \<and> tr = []"
      by (simp add: updateService_def)
    then show ?thesis using that(2) by blast
  next
    case s1: (Inr s1)
    obtain x tr0 where rc:
      "replace_content cl (service_public_id (svc_slug s1)) (svc_contentUrl s1)
         (svc_contentUrl s1) (sb_content req) = (x, tr0)"
      by (cases "replace_content cl (service_public_id (svc_slug s1)) (svc_contentUrl s1)
                   (svc_contentUrl s1) (sb_content req)")
    show ?thesis
    proof (cases x)
      case (Inl m)
      with u f sec s1 rc have "r = Failure 500 m \<and> db' = db \<and> tr = tr0"
        by (simp add: updateService_def)
      with s1 rc Inl show ?thesis using that(3) by blast
    next
      case url: (Inr url)
      show ?thesis
      proof (cases "updateService_status (updateService_fields s1 url req) req")
        case None
        with u f sec s1 rc url
        have "r = Failure 500 ''Error updating service'' \<and> db' = db \<and> tr = tr0"
          by (simp add: updateService_def)
        with s1 rc url show ?thesis using that(4) by blast
      next
        case (Some d)
        show ?thesis
        proof (cases "service_valid d")
          case True
          with u f sec s1 rc url Some
          have "r = Success 200 d \<and> db' = replace_doc db i d \<and> tr = tr0 @ [Save i]"
            by (simp add: updateService_def)
          with s1 rc url Some True show ?thesis using that(5) by blast
        next
          case False
          with u f sec s1 rc url Some
          have "r = Failure 500 ''Error updating service'' \<and> db' = db \<and> tr = tr0"
            by (simp add: updateService_def)
          with s1 rc url show ?thesis using that(4) by blast
        qed
      qed
    qed
  qed
qed

text \<open>
  Claim C4.  Let an update of a stored sample supply raw content (not starting with
  \<open>http\<close>) whose upload fails.  Then the collection after the call is the collection before
  it, so the stored \<open>contentUrl\<close> and every other field are unchanged; no delete call and no
  write is among the effects; and the answer is the 500 "Error uploading content" -- always
  so once an effect was performed, the only other answer being the title conflict detected
  before the upload is attempted.  The same holds for an update of a service whose supplied
  content differs from the stored \<open>contentUrl\<close>, where a missing section is a further answer
  that precedes the upload.  A create whose upload fails is answered in the same way and
  stores nothing.
\<close>

theorem upload_failure_atomic:
  "(findById db i = Some s \<and> b_content req = Some c \<and> \<not> startsWith_http c
      \<and> (\<forall>p. upload cl p c = None) \<and> updateSample cl db i req = (r, db', tr) \<longrightarrow>
        db' = db \<and> findById db' i = Some s
        \<and> (\<forall>p. DeleteFile p \<notin> set tr) \<and> Save i \<notin> set tr
        \<and> (r = Failure 500 ''Error uploading content''
            \<or> r = Failure 400 ''A sample with this title already exists'')
        \<and> (tr \<noteq> [] \<longrightarrow> r = Failure 500 ''Error uploading content''))
   \<and> (findById sdb i = Some v \<and> sb_content sreq = Some c \<and> \<not> startsWith_http c
      \<and> Some c \<noteq> svc_contentUrl v
      \<and> (\<forall>p. upload cl p c = None) \<and> updateService cl secs sdb i sreq = (r', sdb', tr') \<longrightarrow>
        sdb' = sdb \<and> findById sdb' i = Some v
        \<and> (\<forall>p. DeleteFile p \<notin> set tr') \<and> Save i \<notin> set tr'
        \<and> (r' = Failure 500 ''Error uploading content''
            \<or> r' = Failure 400 ''A service with this title already exists''
            \<or> r' = Failure 404 ''Section not found'')
        \<and> (tr' \<noteq> [] \<longrightarrow> r' = Failure 500 ''Error uploading content''))
   \<and> (errors creq = [] \<and> b_title creq = Some t \<and> b_content creq = Some c \<and> c \<noteq> []
      \<and> \<not> startsWith_http c \<and> (\<forall>p. upload cl p c = None) \<longrightarrow>
        createSample cl now db creq =
          (Failure 500 ''Error uploading content'', db,
           [Upload (sample_public_id (Some (slugify t)))])
        \<or> createSample cl now db creq =
          (Failure 400 ''A sample with this title already exists'', db, []))"
proof -
  have a: "findById db i = Some s \<and> b_content req = Some c \<and> \<not> startsWith_http c
      \<and> (\<forall>p. upload cl p c = None) \<and> updateSample cl db i req = (r, db', tr) \<longrightarrow>
        db' = db \<and> findById db' i = Some s
        \<and> (\<forall>p. DeleteFile p \<notin> set tr) \<and> Save i \<notin> set tr
        \<and> (r = Failure 500 ''Error uploading content''
            \<or> r = Failure 400 ''A sample with this title already exists'')
        \<and> (tr \<noteq> [] \<longrightarrow> r = Failure 500 ''Error uploading content'')"
  proof
    assume h: "findById db i = Some s \<and> b_content req = Some c \<and> \<not> startsWith_http c
      \<and> (\<forall>p. upload cl p c = None) \<and> updateSample cl db i req = (r, db', tr)"
    then have f: "findById db i = Some s" and u: "updateSample cl db i req = (r, db', tr)"
      by simp_all
    have rc: "replace_content cl pid None old (b_content req)
                = (Inl ''Error uploading content'', [Upload pid])" for pid old
      using h by (intro replace_content_raw [of _ c]) simp_all
    from u f
    have "(r = Failure 400 ''A sample with this title already exists'' \<and> db' = db \<and> tr = [])
          \<or> (\<exists>pid. r = Failure 500 ''Error uploading content'' \<and> db' = db \<and> tr = [Upload pid])"
    proof (cases rule: updateSample_cases)
      case conflict
      then show ?thesis by simp
    next
      case (blob_error s1 m)
      with rc show ?thesis by auto
    next
      case (invalid s1 url)
      with rc show ?thesis by auto
    next
      case (saved s1 url tr0 d)
      with rc show ?thesis by auto
    qed
    with f show "db' = db \<and> findById db' i = Some s
        \<and> (\<forall>p. DeleteFile p \<notin> set tr) \<and> Save i \<notin> set tr
        \<and> (r = Failure 500 ''Error uploading content''
            \<or> r = Failure 400 ''A sample with this title already exists'')
        \<and> (tr \<noteq> [] \<longrightarrow> r = Failure 500 ''Error uploading content'')"
      by auto
  qed
  have b: "findById sdb i = Some v \<and> sb_content sreq = Some c \<and> \<not> startsWith_http c
      \<and> Some c \<noteq> svc_contentUrl v
      \<and> (\<forall>p. upload cl p c = None) \<and> updateService cl secs sdb i sreq = (r', sdb', tr') \<longrightarrow>
        sdb' = sdb \<and> findById sdb' i = Some v
        \<and> (\<forall>p. DeleteFile p \<notin> set tr') \<and> Save i \<notin> set tr'
        \<and> (r' = Failure 500 ''Error uploading content''
            \<or> r' = Failure 400 ''A service with this title already exists''
            \<or> r' = Failure 404 ''Section not found'')
        \<and> (tr' \<noteq> [] \<longrightarrow> r' = Failure 500 ''Error uploading content'')"
  proof
    assume h: "findById sdb i = Some v \<and> sb_content sreq = Some c \<and> \<not> startsWith_http c
      \<and> Some c \<noteq> svc_contentUrl v
      \<and> (\<forall>p. upload cl p c = None) \<and> updateService cl secs sdb i sreq = (r', sdb', tr')"
    then have f: "findById sdb i = Some v"
      and u: "updateService cl secs sdb i sreq = (r', sdb', tr')"
      by simp_all
    have rc: "replace_content cl pid (svc_contentUrl v) old (sb_content sreq)
                = (Inl ''Error uploading content'', [Upload pid])" for pid old
      using h by (intro replace_content_raw [of _ c]) simp_all
    from u f
    have "(r' = Failure 404 ''Section not found'' \<and> sdb' = sdb \<and> tr' = [])
          \<or> (r' = Failure 400 ''A service with this title already exists'' \<and> sdb' = sdb \<and> tr' = [])
          \<or> (\<exists>pid. r' = Failure 500 ''Error uploading content'' \<and> sdb' = sdb \<and> tr' = [Upload pid])"
    proof (cases rule: updateService_cases)
      case no_section
      then show ?thesis by simp
    next
      case conflict
      then show ?thesis by simp
    next
      case (blob_error s1 m)
      with rc updateService_slug_Inr [of sdb i v "sb_title sreq" s1] show ?thesis by auto
    next
      case (invalid s1 url)
      with rc updateService_slug_Inr [of sdb i v "sb_title sreq" s1] show ?thesis by auto
    next
      case (saved s1 url tr0 d)
      with rc updateService_slug_Inr [of sdb i v "sb_title sreq" s1] show ?thesis by auto
    qed
    with f show "sdb' = sdb \<and> findById sdb' i = Some v
        \<and> (\<forall>p. DeleteFile p \<notin> set tr') \<and> Save i \<notin> set tr'
        \<and> (r' = Failure 500 ''Error uploading content''
            \<or> r' = Failure 400 ''A service with this title already exists''
            \<or> r' = Failure 404 ''Section not found'')
        \<and> (tr' \<noteq> [] \<longrightarrow> r' = Failure 500 ''Error uploading content'')"
      by auto
  qed
  have c: "errors creq = [] \<and> b_title creq = Some t \<and> b_content creq = Some c \<and> c \<noteq> []
      \<and> \<not> startsWith_http c \<and> (\<forall>p. upload cl p c = None) \<longrightarrow>
        createSample cl now db creq =
          (Failure 500 ''Error uploading content'', db,
           [Upload (sample_public_id (Some (slugify t)))])
        \<or> createSample cl now db creq =
          (Failure 400 ''A sample with this title already exists'', db, [])"
    by (simp add: createSample_def Let_def)
  show ?thesis by (rule conjI [OF a conjI [OF b c]])
qed

text \<open>
  The theorem on an update of a sample, an update of a service and a create, each with new
  content against a store whose uploads fail.
\<close>

theorem upload_failure_atomic_witness:
  "updateSample failing_cloud [(0, ex_sample)] 0 ex_update_req =
     (Failure 500 ''Error uploading content'', [(0, ex_sample)],
      [Upload ''content/samples/intro-to-testing-content.md''])
   \<and> findById [(0, ex_sample)] 0 = Some ex_sample
   \<and> DeleteFile ''old.md'' \<notin> set [Upload ''content/samples/intro-to-testing-content.md'']
   \<and> updateService failing_cloud [] [(4, ex_service)] 4 ex_service_req =
     (Failure 500 ''Error uploading content'', [(4, ex_service)],
      [Upload ''content/services/essay-help-content.md''])
   \<and> findById [(4, ex_service)] 4 = Some ex_service
   \<and> createSample failing_cloud 1 [] ex_raw_create_req =
     (Failure 500 ''Error uploading content'', [],
      [Upload (sample_public_id (Some (slugify ''Intro to Testing!'')))])"
proof -
  have e: "updateSample failing_cloud [(0, ex_sample)] 0 ex_update_req =
     (Failure 500 ''Error uploading content'', [(0, ex_sample)],
      [Upload ''content/samples/intro-to-testing-content.md''])"
    by code_simp
  have f: "findById [(0, ex_sample)] 0 = Some ex_sample"
    by (simp add: findById_def)
  have c: "b_content ex_update_req = Some ''New markdown text''"
    by (simp add: ex_update_req_def)
  have n: "\<not> startsWith_http ''New markdown text''"
    by (simp add: startsWith_http_def)
  have u: "\<forall>p. upload failing_cloud p ''New markdown text'' = None"
    by (simp add: failing_cloud_def)
  note r = upload_failure_atomic [THEN conjunct1, THEN mp,
             OF conjI [OF f conjI [OF c conjI [OF n conjI [OF u e]]]]]
  from r have a: "findById [(0, ex_sample)] 0 = Some ex_sample
               \<and> DeleteFile ''old.md'' \<notin> set [Upload ''content/samples/intro-to-testing-content.md'']"
    by blast
  have e2: "updateService failing_cloud [] [(4, ex_service)] 4 ex_service_req =
     (Failure 500 ''Error uploading content'', [(4, ex_service)],
      [Upload ''content/services/essay-help-content.md''])"
    by code_simp
  have f2: "findById [(4, ex_service)] 4 = Some ex_service"
    by (simp add: findById_def)
  have c2: "sb_content ex_service_req = Some ''New markdown text''"
    by (simp add: ex_service_req_def)
  have d2: "Some ''New markdown text'' \<noteq> svc_contentUrl ex_service"
    by (simp add: ex_service_def)
  note r2 = upload_failure_atomic [THEN conjunct2, THEN conjunct1, THEN mp,
              OF conjI [OF f2 conjI [OF c2 conjI [OF n conjI [OF d2 conjI [OF u e2]]]]]]
  from r2 have b: "findById [(4, ex_service)] 4 = Some ex_service" by blast
  have h3: "errors ex_raw_create_req = [] \<and> b_title ex_raw_create_req = Some ''Intro to Testing!''
            \<and> b_content ex_raw_create_req = Some ''New markdown text''
            \<and> ''New markdown text'' \<noteq> [] \<and> \<not> startsWith_http ''New markdown text''
            \<and> (\<forall>p. upload failing_cloud p ''New markdown text'' = None)"
    using n u by (simp add: ex_raw_create_req_def ex_create_req_def)
  have nc: "createSample failing_cloud 1 [] ex_raw_create_req \<noteq>
          (Failure 400 ''A sample with this title already exists'', [], [])"
    by code_simp
  from upload_failure_atomic [THEN conjunct2, THEN conjunct2, THEN mp, OF h3, of 1 "[]"] nc
  have c3: "createSample failing_cloud 1 [] ex_raw_create_req =
     (Failure 500 ''Error uploading content'', [],
      [Upload (sample_public_id (Some (slugify ''Intro to Testing!'')))])"
    by blast
  from a have a1: "findById [(0, ex_sample)] 0 = Some ex_sample"
    and a2: "DeleteFile ''old.md'' \<notin> set [Upload ''content/samples/intro-to-testing-content.md'']"
    by blast+
  show ?thesis
    by (rule conjI [OF e conjI [OF a1 conjI [OF a2 conjI [OF e2 conjI [OF b c3]]]]])
qed

text \<open>
  Claim C1, as amended.  When an update of a sample or of a service succeeds and has
  attempted a delete on the blob store, its effects are exactly, in this order: the upload
  of the new content, the delete of the blob of the previously stored \<open>contentUrl\<close>, the
  write of the document, which then carries the locator the upload returned.  The delete of
  the old blob thus follows the upload of the new one and precedes the persisting of the
  new locator.
\<close>

theorem replace_order:
  "(findById db i = Some s \<and> updateSample cl db i req = (Success c d, db', tr)
      \<and> DeleteFile p \<in> set tr \<longrightarrow>
        tr = [Upload (sample_public_id (slug d)), DeleteFile p, Save i]
        \<and> (\<exists>prev. contentUrl s = Some prev \<and> p = getPublicIdFromUrl cl prev)
        \<and> (\<exists>pc. b_content req = Some pc
               \<and> upload cl (sample_public_id (slug d)) pc = contentUrl d)
        \<and> contentUrl d \<noteq> None \<and> findById db' i = Some d)
   \<and> (findById sdb i = Some v \<and> updateService cl secs sdb i sreq = (Success c' d', sdb', tr')
      \<and> DeleteFile p' \<in> set tr' \<longrightarrow>
        tr' = [Upload (service_public_id (svc_slug d')), DeleteFile p', Save i]
        \<and> (\<exists>prev. svc_contentUrl v = Some prev \<and> p' = getPublicIdFromUrl cl prev)
        \<and> (\<exists>pc. sb_content sreq = Some pc
               \<and> upload cl (service_public_id (svc_slug d')) pc = svc_contentUrl d')
        \<and> svc_contentUrl d' \<noteq> None \<and> findById sdb' i = Some d')"
proof -
  have a: "findById db i = Some s \<and> updateSample cl db i req = (Success c d, db', tr)
      \<and> DeleteFile p \<in> set tr \<longrightarrow>
        tr = [Upload (sample_public_id (slug d)), DeleteFile p, Save i]
        \<and> (\<exists>prev. contentUrl s = Some prev \<and> p = getPublicIdFromUrl cl prev)
        \<and> (\<exists>pc. b_content req = Some pc
               \<and> upload cl (sample_public_id (slug d)) pc = contentUrl d)
        \<and> contentUrl d \<noteq> None \<and> findById db' i = Some d"
  proof
    assume h: "findById db i = Some s \<and> updateSample cl db i req = (Success c d, db', tr)
      \<and> DeleteFile p \<in> set tr"
    then have f: "findById db i = Some s"
      and u: "updateSample cl db i req = (Success c d, db', tr)"
      and del: "DeleteFile p \<in> set tr"
      by simp_all
    from u f obtain s1 url tr0 where
      s1: "updateSample_slug db i s (b_title req) = Inr s1" and
      rc: "replace_content cl (sample_public_id (slug s1)) None (contentUrl s1) (b_content req)
             = (Inr url, tr0)" and
      d: "updateSample_status (updateSample_fields s1 url req) req = Some d" and
      db': "db' = replace_doc db i d" and tr: "tr = tr0 @ [Save i]"
      by (cases rule: updateSample_cases) simp_all
    from del tr have del0: "DeleteFile p \<in> set tr0" by simp
    from replace_content_cases [OF rc] del0 obtain pc u0 prev where
      pc: "b_content req = Some pc" and
      up: "upload cl (sample_public_id (slug s1)) pc = Some u0" and
      old: "contentUrl s1 = Some prev" and
      tr0: "tr0 = [Upload (sample_public_id (slug s1)), DeleteFile (getPublicIdFromUrl cl prev)]" and
      url: "url = Some u0"
      by auto
    from updateSample_status_slug [OF d] url
    have sl: "slug d = slug s1" and cu: "contentUrl d = Some u0" by simp_all
    from del0 tr0 have p: "p = getPublicIdFromUrl cl prev" by simp
    from updateSample_slug_contentUrl [OF s1] old have olds: "contentUrl s = Some prev" by simp
    from f db' have fd: "findById db' i = Some d" by (simp add: findById_replace_same)
    from tr tr0 sl p olds pc up cu fd
    show "tr = [Upload (sample_public_id (slug d)), DeleteFile p, Save i]
        \<and> (\<exists>prev. contentUrl s = Some prev \<and> p = getPublicIdFromUrl cl prev)
        \<and> (\<exists>pc. b_content req = Some pc
               \<and> upload cl (sample_public_id (slug d)) pc = contentUrl d)
        \<and> contentUrl d \<noteq> None \<and> findById db' i = Some d"
      by simp
  qed
  have b: "findById sdb i = Some v \<and> updateService cl secs sdb i sreq = (Success c' d', sdb', tr')
      \<and> DeleteFile p' \<in> set tr' \<longrightarrow>
        tr' = [Upload (service_public_id (svc_slug d')), DeleteFile p', Save i]
        \<and> (\<exists>prev. svc_contentUrl v = Some prev \<and> p' = getPublicIdFromUrl cl prev)
        \<and> (\<exists>pc. sb_content sreq = Some pc
               \<and> upload cl (service_public_id (svc_slug d')) pc = svc_contentUrl d')
        \<and> svc_contentUrl d' \<noteq> None \<and> findById sdb' i = Some d'"
  proof
    assume h: "findById sdb i = Some v
      \<and> updateService cl secs sdb i sreq = (Success c' d', sdb', tr')
      \<and> DeleteFile p' \<in> set tr'"
    then have f: "findById sdb i = Some v"
      and u: "updateService cl secs sdb i sreq = (Success c' d', sdb', tr')"
      and del: "DeleteFile p' \<in> set tr'"
      by simp_all
    from u f obtain s1 url tr0 where
      s1: "updateService_slug sdb i v (sb_title sreq) = Inr s1" and
      rc: "replace_content cl (service_public_id (svc_slug s1)) (svc_contentUrl s1)
             (svc_contentUrl s1) (sb_content sreq) = (Inr url, tr0)" and
      d: "updateService_status (updateService_fields s1 url sreq) sreq = Some d'" and
      db': "sdb' = replace_doc sdb i d'" and tr: "tr' = tr0 @ [Save i]"
      by (cases rule: updateService_cases) simp_all
    from del tr have del0: "DeleteFile p' \<in> set tr0" by simp
    from replace_content_cases [OF rc] del0 obtain pc u0 prev where
      pc: "sb_content sreq = Some pc" and
      up: "upload cl (service_public_id (svc_slug s1)) pc = Some u0" and
      old: "svc_contentUrl s1 = Some prev" and
      tr0: "tr0 = [Upload (service_public_id (svc_slug s1)),
                   DeleteFile (getPublicIdFromUrl cl prev)]" and
      url: "url = Some u0"
      by auto
    from updateService_fields_slug [OF d] url
    have sl: "svc_slug d' = svc_slug s1" and cu: "svc_contentUrl d' = Some u0" by simp_all
    from del0 tr0 have p: "p' = getPublicIdFromUrl cl prev" by simp
    from updateService_slug_Inr [OF s1] old have olds: "svc_contentUrl v = Some prev" by simp
    from f db' have fd: "findById sdb' i = Some d'" by (simp add: findById_replace_same)
    from tr tr0 sl p olds pc up cu fd
    show "tr' = [Upload (service_public_id (svc_slug d')), DeleteFile p', Save i]
        \<and> (\<exists>prev. svc_contentUrl v = Some prev \<and> p' = getPublicIdFromUrl cl prev)
        \<and> (\<exists>pc. sb_content sreq = Some pc
               \<and> upload cl (service_public_id (svc_slug d')) pc = svc_contentUrl d')
        \<and> svc_contentUrl d' \<noteq> None \<and> findById sdb' i = Some d'"
      by simp
  qed
  from a b show ?thesis by (rule conjI)
qed


text \<open>The theorem on updates that replace the content of a stored sample and of a stored service.\<close>

theorem replace_order_witness:
  "updateSample ok_cloud [(0, ex_sample)] 0 ex_update_req =
     (Success 200 ex_updated, [(0, ex_updated)], ex_trace)
   \<and> ex_trace = [Upload (sample_public_id (slug ex_updated)), DeleteFile ''old.md'', Save 0]
   \<and> updateService ok_cloud [] [(4, ex_service)] 4 ex_service_req =
     (Success 200 ex_service_updated, [(4, ex_service_updated)], ex_service_trace)
   \<and> ex_service_trace =
       [Upload (service_public_id (svc_slug ex_service_updated)), DeleteFile ''essay.md'', Save 4]"
proof -
  have e: "updateSample ok_cloud [(0, ex_sample)] 0 ex_update_req =
     (Success 200 ex_updated, [(0, ex_updated)], ex_trace)"
    by code_simp
  have f: "findById [(0, ex_sample)] 0 = Some ex_sample"
    by (simp add: findById_def)
  have d: "DeleteFile ''old.md'' \<in> set ex_trace"
    by (simp add: ex_trace_def)
  have a: "ex_trace = [Upload (sample_public_id (slug ex_updated)), DeleteFile ''old.md'', Save 0]"
    by (rule replace_order [THEN conjunct1, THEN mp, OF conjI [OF f conjI [OF e d]],
          THEN conjunct1])
  have e2: "updateService ok_cloud [] [(4, ex_service)] 4 ex_service_req =
     (Success 200 ex_service_updated, [(4, ex_service_updated)], ex_service_trace)"
    by code_simp
  have f2: "findById [(4, ex_service)] 4 = Some ex_service"
    by (simp add: findById_def)
  have d2: "DeleteFile ''essay.md'' \<in> set ex_service_trace"
    by (simp add: ex_service_trace_def)
  have b: "ex_service_trace =
       [Upload (service_public_id (svc_slug ex_service_updated)), DeleteFile ''essay.md'', Save 4]"
    by (rule replace_order [THEN conjunct2, THEN mp, OF conjI [OF f2 conjI [OF e2 d2]],
          THEN conjunct1])
  show ?thesis by (rule conjI [OF e conjI [OF a conjI [OF e2 b]]])
qed

text \<open>
  The order as claimed (no delete before the document is written) fails on that very update:
  it succeeds, and the delete of the old blob comes before the write.
\<close>

theorem replace_order_counterexample:
  "updateSample ok_cloud [(0, ex_sample)] 0 ex_update_req =
     (Success 200 ex_updated, [(0, ex_updated)],
      [Upload ''content/samples/intro-to-testing-content.md'', DeleteFile ''old.md'', Save 0])
   \<and> \<not> persist_precedes_delete
         [Upload ''content/samples/intro-to-testing-content.md'', DeleteFile ''old.md'', Save 0]"
proof -
  have "updateSample ok_cloud [(0, ex_sample)] 0 ex_update_req =
     (Success 200 ex_updated, [(0, ex_updated)],
      [Upload ''content/samples/intro-to-testing-content.md'', DeleteFile ''old.md'', Save 0])"
    by code_simp
  then show ?thesis by simp
qed

section \<open>Toggling the status\<close>

text \<open>
  Claim C7.  Toggle on an entity in a terminal or side state -- \<open>Archived\<close> for a sample
  or a blog, \<open>Inactive\<close> or \<open>Coming_Soon\<close> for a service -- is refused with the 400
  answer "Cannot toggle status ...", performs no write, and leaves the collection, hence
  the status of the entity, as it was.
\<close>

theorem toggle_refuses_side_states:
  "(findById db i = Some s \<and> status s = ARCHIVED \<longrightarrow>
      toggleSampleStatus db i = (Failure 400 ''Cannot toggle status of archived sample'', db, []))
   \<and> (findById bdb i = Some b \<and> blog_status b = B_ARCHIVED \<longrightarrow>
      toggleBlogStatus bdb i = (Failure 400 ''Cannot toggle status of archived blog'', bdb, []))
   \<and> (findById sdb i = Some v \<and> (svc_status v = S_INACTIVE \<or> svc_status v = S_COMING_SOON) \<longrightarrow>
      toggleServiceStatus sdb i =
        (Failure 400 ''Cannot toggle status of inactive or coming soon service'', sdb, []))"
  by (simp add: toggleSampleStatus_def toggleBlogStatus_def toggleServiceStatus_def)

theorem toggle_refuses_side_states_witness:
  "toggleSampleStatus [(0, ex_sample\<lparr>status := ARCHIVED\<rparr>)] 0 =
     (Failure 400 ''Cannot toggle status of archived sample'',
      [(0, ex_sample\<lparr>status := ARCHIVED\<rparr>)], [])
   \<and> toggleBlogStatus [(0, ex_blog\<lparr>blog_status := B_ARCHIVED\<rparr>)] 0 =
     (Failure 400 ''Cannot toggle status of archived blog'',
      [(0, ex_blog\<lparr>blog_status := B_ARCHIVED\<rparr>)], [])
   \<and> toggleServiceStatus [(0, ex_service\<lparr>svc_status := S_INACTIVE\<rparr>)] 0 =
     (Failure 400 ''Cannot toggle status of inactive or coming soon service'',
      [(0, ex_service\<lparr>svc_status := S_INACTIVE\<rparr>)], [])"
  using toggle_refuses_side_states
    [of "[(0, ex_sample\<lparr>status := ARCHIVED\<rparr>)]" 0 "ex_sample\<lparr>status := ARCHIVED\<rparr>"
        "[(0, ex_blog\<lparr>blog_status := B_ARCHIVED\<rparr>)]" "ex_blog\<lparr>blog_status := B_ARCHIVED\<rparr>"
        "[(0, ex_service\<lparr>svc_status := S_INACTIVE\<rparr>)]" "ex_service\<lparr>svc_status := S_INACTIVE\<rparr>"]
  by (simp add: findById_def)

section \<open>Publication instant of a blog\<close>

text \<open>
  Claim C2.  On a draft blog that was never published, toggle answers with status
  \<open>Published\<close> and writes that status, yet the stored publication instant is still
  missing afterwards; a second toggle returns the blog to the draft it was.  The status
  block of \<open>updateBlog\<close>, given the same draft and the status \<open>Published\<close> by an admin,
  stamps the instant.
\<close>

theorem toggle_blog_leaves_datePublished:
  "blog_status ex_blog = B_DRAFT \<and> blog_datePublished ex_blog = None
   \<and> toggleBlogStatus [(0, ex_blog)] 0 =
       (Success 200 (0, B_PUBLISHED), [(0, ex_blog\<lparr>blog_status := B_PUBLISHED\<rparr>)], [Save 0])
   \<and> blog_datePublished (ex_blog\<lparr>blog_status := B_PUBLISHED\<rparr>) = None
   \<and> toggleBlogStatus [(0, ex_blog\<lparr>blog_status := B_PUBLISHED\<rparr>)] 0 =
       (Success 200 (0, B_DRAFT), [(0, ex_blog)], [Save 0])
   \<and> updateBlog_status 42 ex_blog (Some ''Published'') (Some ''Admin'') =
       Some (ex_blog\<lparr>blog_status := B_PUBLISHED, blog_datePublished := Some 42\<rparr>)"
proof -
  have a: "blog_status ex_blog = B_DRAFT \<and> blog_datePublished ex_blog = None"
    by (simp add: ex_blog_def)
  have b: "toggleBlogStatus [(0, ex_blog)] 0 =
       (Success 200 (0, B_PUBLISHED), [(0, ex_blog\<lparr>blog_status := B_PUBLISHED\<rparr>)], [Save 0])"
    by code_simp
  have c: "blog_datePublished (ex_blog\<lparr>blog_status := B_PUBLISHED\<rparr>) = None"
    by (simp add: ex_blog_def)
  have t: "toggleBlogStatus [(0, ex_blog\<lparr>blog_status := B_PUBLISHED\<rparr>)] 0 =
       (Success 200 (0, B_DRAFT), [(0, ex_blog)], [Save 0])"
    by code_simp
  have d: "updateBlog_status 42 ex_blog (Some ''Published'') (Some ''Admin'') =
       Some (ex_blog\<lparr>blog_status := B_PUBLISHED, blog_datePublished := Some 42\<rparr>)"
    by code_simp
  from a b c t d show ?thesis by blast
qed

section \<open>Deleting a section\<close>

text \<open>
  Claim C10.  Deleting a section that at least one service references fails with the 400
  answer and leaves the sections as they were; a delete that succeeds (or changes the
  sections at all) means that no service references the section, and the section is gone
  afterwards; so if every service's section exists before the call, every service's
  section exists after it.
\<close>

theorem deleteSection_guard:
  "((\<exists>(j, s) \<in> set svcs. svc_section s = i) \<longrightarrow>
      deleteSection secs svcs i =
        (Failure 400 ''Cannot delete section with existing services'', secs))
   \<and> (deleteSection secs svcs i = (Success c u, secs') \<longrightarrow>
        (\<forall>(j, s) \<in> set svcs. svc_section s \<noteq> i)
        \<and> secs' = delete_doc secs i \<and> findById secs' i = None)
   \<and> (snd (deleteSection secs svcs i) \<noteq> secs \<longrightarrow>
        (\<forall>(j, s) \<in> set svcs. svc_section s \<noteq> i))
   \<and> ((\<forall>(j, s) \<in> set svcs. findById secs (svc_section s) \<noteq> None) \<longrightarrow>
        (\<forall>(j, s) \<in> set svcs. findById (snd (deleteSection secs svcs i)) (svc_section s) \<noteq> None))"
proof -
  let ?n = "length (filter (\<lambda>(j, s). svc_section s = i) svcs)"
  have n: "?n > 0 \<longleftrightarrow> (\<exists>(j, s) \<in> set svcs. svc_section s = i)"
    by (auto simp: filter_empty_conv)
  have a: "(\<exists>(j, s) \<in> set svcs. svc_section s = i) \<longrightarrow>
      deleteSection secs svcs i =
        (Failure 400 ''Cannot delete section with existing services'', secs)"
    using n by (simp add: deleteSection_def)
  have b: "deleteSection secs svcs i = (Success c u, secs') \<longrightarrow>
        (\<forall>(j, s) \<in> set svcs. svc_section s \<noteq> i)
        \<and> secs' = delete_doc secs i \<and> findById secs' i = None"
    using n by (auto simp: deleteSection_def Let_def findById_delete_doc split: if_splits option.splits)
  have c: "snd (deleteSection secs svcs i) \<noteq> secs \<longrightarrow>
        (\<forall>(j, s) \<in> set svcs. svc_section s \<noteq> i)"
    using n by (auto simp: deleteSection_def Let_def split: if_splits option.splits)
  have d: "(\<forall>(j, s) \<in> set svcs. findById secs (svc_section s) \<noteq> None) \<longrightarrow>
        (\<forall>(j, s) \<in> set svcs. findById (snd (deleteSection secs svcs i)) (svc_section s) \<noteq> None)"
    using n by (auto simp: deleteSection_def Let_def findById_delete_doc split: if_splits option.splits)
  from a b c d show ?thesis by blast
qed

theorem deleteSection_guard_witness:
  "deleteSection [(7, ex_section)] [(4, ex_service)] 7 =
     (Failure 400 ''Cannot delete section with existing services'', [(7, ex_section)])
   \<and> findById (snd (deleteSection [(7, ex_section)] [(4, ex_service)] 7))
         (svc_section ex_service) \<noteq> None
   \<and> deleteSection [(7, ex_section)] [] 7 = (Success 200 (), [])
   \<and> findById ([] :: service_section collection) 7 = None"
proof -
  have a: "deleteSection [(7, ex_section)] [(4, ex_service)] 7 =
     (Failure 400 ''Cannot delete section with existing services'', [(7, ex_section)])
   \<and> findById (snd (deleteSection [(7, ex_section)] [(4, ex_service)] 7))
         (svc_section ex_service) \<noteq> None"
    using deleteSection_guard [of "[(4, ex_service)]" 7 "[(7, ex_section)]"]
    by (simp add: ex_service_def findById_def)
  have e: "deleteSection [(7, ex_section)] [] 7 = (Success 200 (), [])"
    by code_simp
  have "findById ([] :: service_section collection) 7 = None"
    using deleteSection_guard [THEN conjunct2, THEN conjunct1, THEN mp, OF e] by blast
  with a e show ?thesis by blast
qed

end
